theory Spec2Isabelle
  imports Complex_Main
begin

section \<open>Values of the embedding\<close>

text \<open>
  The model is \<^verbatim>\<open>src/model/KGAT.py\<close>. Every exception the Python can raise is a
  value of \<open>py_error\<close>; a function that can raise returns \<open>py_error + 'a\<close>, with
  \<open>Inl\<close> the exception.
\<close>

datatype py_error =
    KeyError | IndexError | ZeroDivisionError | AttributeError
  | NotImplementedError | ValueError | RuntimeError | TypeError | DGLError

text \<open>
  Tensor entries of the fusion stage. Finite entries are exact reals: the rounding
  and the overflow of the program's 32-bit floats are not modelled, so the value of a
  finite sum, product or quotient here is the program's only where the program does
  not round (a product with 1, a quotient by 1, a sum with 0). The three special
  values of IEEE arithmetic are kept, because the fusion stage divides tensors by
  Python numbers that can be zero, and a tensor division by zero returns \<open>nan\<close> or
  \<open>inf\<close> where a division of two Python numbers raises.
\<close>

datatype fl = Fin real | PInf | NInf | NaN

fun fadd :: "fl \<Rightarrow> fl \<Rightarrow> fl" where
  "fadd NaN _ = NaN"
| "fadd _ NaN = NaN"
| "fadd PInf NInf = NaN"
| "fadd NInf PInf = NaN"
| "fadd PInf _ = PInf"
| "fadd _ PInf = PInf"
| "fadd NInf _ = NInf"
| "fadd _ NInf = NInf"
| "fadd (Fin a) (Fin b) = Fin (a + b)"

text \<open>A finite Python float or a finite weight times a tensor entry.\<close>

fun fscale :: "real \<Rightarrow> fl \<Rightarrow> fl" where
  "fscale s (Fin a) = Fin (s * a)"
| "fscale s NaN = NaN"
| "fscale s PInf = (if s = 0 then NaN else if 0 < s then PInf else NInf)"
| "fscale s NInf = (if s = 0 then NaN else if 0 < s then NInf else PInf)"

text \<open>
  A tensor entry divided by a Python number. The divisors of the source are list
  lengths and sums of Jaccard weights, so a zero divisor is the positive zero.
\<close>

fun fdiv :: "fl \<Rightarrow> real \<Rightarrow> fl" where
  "fdiv (Fin a) n =
     (if n = 0 then (if a = 0 then NaN else if 0 < a then PInf else NInf)
      else Fin (a / n))"
| "fdiv NaN n = NaN"
| "fdiv PInf n = (if 0 \<le> n then PInf else NInf)"
| "fdiv NInf n = (if 0 \<le> n then NInf else PInf)"

fun relu :: "fl \<Rightarrow> fl" where
  "relu (Fin a) = Fin (max 0 a)"
| "relu PInf = PInf"
| "relu NInf = Fin 0"
| "relu NaN = NaN"

text \<open>
  A two-dimensional tensor: its rows and its width. The width is kept apart from the
  rows because selecting no row of a tensor of shape \<open>(n, d)\<close> still gives shape
  \<open>(0, d)\<close>.
\<close>

record 'a table =
  ncols :: nat
  rws :: "'a list list"

definition wf_table :: "'a table \<Rightarrow> bool" where
  "wf_table t = list_all (\<lambda>r. length r = ncols t) (rws t)"

text \<open>The Interaction Dictionary and the Similarity Neighbor Table: id to list of ids.\<close>

type_synonym id_dict = "nat \<rightharpoonup> nat list"

subsection \<open>The fusion encoders\<close>

text \<open>
  \<^verbatim>\<open>nn.Linear\<close>: the weight has shape \<open>(out_features, in_features)\<close>; it is a function of
  the two indices, read below the two sizes only. A layer applied to rows of another
  width raises RuntimeError.
\<close>

record linear =
  in_features :: nat
  out_features :: nat
  weight :: "nat \<Rightarrow> nat \<Rightarrow> real"
  bias :: "(nat \<Rightarrow> real) option"

definition fdot :: "(nat \<Rightarrow> real) \<Rightarrow> fl list \<Rightarrow> fl" where
  "fdot w x = foldl fadd (Fin 0) (map (\<lambda>j. fscale (w j) (x ! j)) [0..<length x])"

definition linear_row :: "linear \<Rightarrow> fl list \<Rightarrow> fl list" where
  "linear_row L x =
     map (\<lambda>i. case bias L of
                 None \<Rightarrow> fdot (weight L i) x
               | Some b \<Rightarrow> fadd (fdot (weight L i) x) (Fin (b i)))
         [0..<out_features L]"

definition linear_apply :: "linear \<Rightarrow> fl list list \<Rightarrow> py_error + fl list list" where
  "linear_apply L X =
     (if list_all (\<lambda>x. length x = in_features L) X
      then Inr (map (linear_row L) X)
      else Inl RuntimeError)"

text \<open>\<^verbatim>\<open>nn.Sequential(Linear, ReLU, Linear, ReLU)\<close>.\<close>

record encoder =
  lin1 :: linear
  lin2 :: linear

definition encoder_apply :: "encoder \<Rightarrow> fl list list \<Rightarrow> py_error + fl list list" where
  "encoder_apply enc X =
     (case linear_apply (lin1 enc) X of
        Inl e \<Rightarrow> Inl e
      | Inr h \<Rightarrow>
          (case linear_apply (lin2 enc) (map (map relu) h) of
             Inl e \<Rightarrow> Inl e
           | Inr y \<Rightarrow> Inr (map (map relu) y)))"

text \<open>
  The encoders as \<^verbatim>\<open>KGAT.__init__\<close> builds them, from the initial weights of the two
  linear layers: the sizes are the literals of the source.
\<close>

definition mk_encoder :: "(nat \<Rightarrow> nat \<Rightarrow> real) \<Rightarrow> (nat \<Rightarrow> nat \<Rightarrow> real) \<Rightarrow> encoder" where
  "mk_encoder w1 w2 =
     \<lparr>lin1 = \<lparr>in_features = 176 * 2, out_features = 176, weight = w1, bias = None\<rparr>,
      lin2 = \<lparr>in_features = 176, out_features = 176, weight = w2, bias = None\<rparr>\<rparr>"

subsection \<open>The model object\<close>

text \<open>
  \<^verbatim>\<open>Aggregator\<close>: the fields \<^verbatim>\<open>__init__\<close> sets. A layer that the chosen scheme does not
  create is \<open>None\<close>.
\<close>

record aggregator =
  in_dim :: nat
  out_dim :: nat
  dropout :: real
  aggregator_type :: string
  agg_W :: "linear option"
  agg_W1 :: "linear option"
  agg_W2 :: "linear option"

text \<open>
  \<^verbatim>\<open>KGAT\<close>: the fields \<^verbatim>\<open>__init__\<close> sets, the attribute \<^verbatim>\<open>W_r\<close> that
  \<^verbatim>\<open>compute_attention\<close> sets later (\<open>None\<close> until then), and the flag \<^verbatim>\<open>training\<close> of
  \<^verbatim>\<open>nn.Module\<close>. The embedding weights are functions of their indices, read below
  the sizes of the layer only: \<open>entity_embed m i j\<close> for \<open>i < n_entities m\<close> and
  \<open>j < entity_dim m\<close>, \<open>W_R m r j k\<close> for the relation \<open>r\<close>.
\<close>

record kgat =
  use_pretrain :: int
  n_users :: nat
  n_entities :: nat
  n_relations :: nat
  entity_dim :: nat
  relation_dim :: nat
  aggregation_type :: string
  conv_dim_list :: "nat list"
  mess_dropout :: "real list"
  n_layers :: nat
  kg_l2loss_lambda :: real
  cf_l2loss_lambda :: real
  relation_embed :: "nat \<Rightarrow> nat \<Rightarrow> real"
  entity_embed :: "nat \<Rightarrow> nat \<Rightarrow> real"
  W_R :: "nat \<Rightarrow> nat \<Rightarrow> nat \<Rightarrow> real"
  aggregator_layers :: "aggregator list"
  user_encoder :: encoder
  item_encoder :: encoder
  W_r :: "(nat \<Rightarrow> nat \<Rightarrow> real) option"
  training :: bool

text \<open>
  The graph: \<^verbatim>\<open>g.ndata['id']\<close> per node, the edges with their endpoints (node
  positions) and \<^verbatim>\<open>edata['type']\<close>, and \<^verbatim>\<open>g.edata['att']\<close> when the caller has set it.
\<close>

record edge =
  src :: nat
  dst :: nat
  etype :: nat

record graph =
  ndata_id :: "nat list"
  edges :: "edge list"
  edata_att :: "real list option"

definition wf_graph :: "graph \<Rightarrow> bool" where
  "wf_graph g =
     (list_all (\<lambda>e. src e < length (ndata_id g) \<and> dst e < length (ndata_id g)) (edges g)
      \<and> (case edata_att g of None \<Rightarrow> True | Some a \<Rightarrow> length a = length (edges g)))"

section \<open>Similarity-weighted fusion\<close>

text \<open>
  \<^verbatim>\<open>calk_sim\<close>: both lookups raise KeyError on a missing key; \<open>inter/all\<close> is a
  division of two Python ints, which raises ZeroDivisionError when \<open>all\<close> is 0.
\<close>

definition calk_sim :: "nat \<Rightarrow> nat \<Rightarrow> id_dict \<Rightarrow> py_error + real" where
  "calk_sim idx sim_idx i_dict =
     (case i_dict idx of
        None \<Rightarrow> Inl KeyError
      | Some staffs \<Rightarrow>
          (case i_dict sim_idx of
             None \<Rightarrow> Inl KeyError
           | Some staffs2 \<Rightarrow>
               (let all = card (set staffs \<union> set staffs2);
                    inter = card (set staffs \<inter> set staffs2)
                in if all = 0 then Inl ZeroDivisionError
                   else Inr (real inter / real all))))"

text \<open>\<^verbatim>\<open>embed[idxs]\<close> with a list of row indices: IndexError when one is out of range.\<close>

definition index_rows :: "fl table \<Rightarrow> nat list \<Rightarrow> py_error + fl list list" where
  "index_rows emb idxs =
     (if list_all (\<lambda>i. i < length (rws emb)) idxs
      then Inr (map (\<lambda>i. rws emb ! i) idxs)
      else Inl IndexError)"

text \<open>\<^verbatim>\<open>torch.sum(t, dim = 0)\<close> of a tensor of shape \<open>(k, d)\<close>: a row of width \<open>d\<close>.\<close>

definition sum_dim0 :: "nat \<Rightarrow> fl list list \<Rightarrow> fl list" where
  "sum_dim0 d rs = foldl (\<lambda>acc r. map2 fadd acc r) (replicate d (Fin 0)) rs"

text \<open>
  The expression shared by both branches of \<^verbatim>\<open>get_user_kg_embed\<close>:
  \<^verbatim>\<open>torch.sum(embed[user_dict[uid]], dim = 0) / len(user_dict[uid])\<close>.
  The division is a tensor divided by a Python int: it does not raise.
\<close>

definition user_kg_row :: "fl table \<Rightarrow> id_dict \<Rightarrow> nat \<Rightarrow> py_error + fl list" where
  "user_kg_row emb user_dict uid =
     (case user_dict uid of
        None \<Rightarrow> Inl KeyError
      | Some interacted_item_list \<Rightarrow>
          (case index_rows emb interacted_item_list of
             Inl e \<Rightarrow> Inl e
           | Inr rs \<Rightarrow>
               Inr (map (\<lambda>x. fdiv x (real (length interacted_item_list)))
                        (sum_dim0 (ncols emb) rs))))"

text \<open>
  The argument \<^verbatim>\<open>user_ids\<close> is either one \<^verbatim>\<open>np.float64\<close> (an entry of a similarity
  list, holding an integral id) or a tensor of ids.
\<close>

datatype id_arg = NpFloat nat | IdTensor "nat list"

text \<open>The loop of the tensor branch; the rows are concatenated in the order of the ids.\<close>

fun kg_rows :: "fl table \<Rightarrow> id_dict \<Rightarrow> nat list \<Rightarrow> py_error + fl list list" where
  "kg_rows emb user_dict [] = Inr []"
| "kg_rows emb user_dict (uid # uids) =
     (case user_kg_row emb user_dict uid of
        Inl e \<Rightarrow> Inl e
      | Inr r \<Rightarrow>
          (case kg_rows emb user_dict uids of
             Inl e \<Rightarrow> Inl e
           | Inr rs \<Rightarrow> Inr (r # rs)))"

text \<open>
  \<^verbatim>\<open>get_user_kg_embed\<close>. With no id in the tensor \<^verbatim>\<open>kg_user_embed\<close> is still
  \<^verbatim>\<open>None\<close> at \<^verbatim>\<open>.view\<close>, which raises AttributeError.
\<close>

definition get_user_kg_embed :: "fl table \<Rightarrow> id_arg \<Rightarrow> id_dict \<Rightarrow> py_error + fl list list" where
  "get_user_kg_embed emb user_ids user_dict =
     (case user_ids of
        NpFloat u \<Rightarrow>
          (case user_kg_row emb user_dict u of
             Inl e \<Rightarrow> Inl e
           | Inr r \<Rightarrow> Inr [r])
      | IdTensor uids \<Rightarrow>
          (case kg_rows emb user_dict uids of
             Inl e \<Rightarrow> Inl e
           | Inr rs \<Rightarrow> if rs = [] then Inl AttributeError else Inr rs))"

text \<open>
  The inner loop of \<^verbatim>\<open>get_user_cf_embed\<close>. The accumulator \<^verbatim>\<open>sim_user_embed\<close> is the
  Python int 0 (\<open>None\<close> here) until the first neighbour is added; \<^verbatim>\<open>norm\<close> is the int 0
  until then and a float afterwards.
\<close>

fun sim_user_loop ::
  "fl table \<Rightarrow> id_dict \<Rightarrow> nat \<Rightarrow> nat list \<Rightarrow> fl list list option \<times> real
     \<Rightarrow> py_error + (fl list list option \<times> real)" where
  "sim_user_loop emb user_dict uid [] acc = Inr acc"
| "sim_user_loop emb user_dict uid (sim_user # rest) (sim_user_embed, nrm) =
     (case calk_sim uid sim_user user_dict of
        Inl e \<Rightarrow> Inl e
      | Inr sim \<Rightarrow>
          (case get_user_kg_embed emb (NpFloat sim_user) user_dict of
             Inl e \<Rightarrow> Inl e
           | Inr kg \<Rightarrow>
               (let contrib = map (map (fscale sim)) kg;
                    new_embed = (case sim_user_embed of
                                   None \<Rightarrow> contrib
                                 | Some t \<Rightarrow> map2 (map2 fadd) t contrib)
                in sim_user_loop emb user_dict uid rest (Some new_embed, nrm + sim))))"

text \<open>
  \<^verbatim>\<open>sim_user_embed / norm\<close>: with an empty neighbour list both are the Python int 0,
  and the division raises; afterwards it is a tensor divided by a Python float.
\<close>

definition div_by_norm :: "fl list list option \<times> real \<Rightarrow> py_error + fl list list" where
  "div_by_norm acc =
     (case fst acc of
        None \<Rightarrow> Inl ZeroDivisionError
      | Some t \<Rightarrow> Inr (map (map (\<lambda>x. fdiv x (snd acc))) t))"

definition user_cf_row :: "fl table \<Rightarrow> id_dict \<Rightarrow> id_dict \<Rightarrow> nat \<Rightarrow> py_error + fl list list" where
  "user_cf_row emb user_dict sim_user_dict uid =
     (case sim_user_dict uid of
        None \<Rightarrow> Inl KeyError
      | Some sims \<Rightarrow>
          (case sim_user_loop emb user_dict uid sims (None, 0) of
             Inl e \<Rightarrow> Inl e
           | Inr acc \<Rightarrow> div_by_norm acc))"

fun cf_rows :: "fl table \<Rightarrow> id_dict \<Rightarrow> id_dict \<Rightarrow> nat list \<Rightarrow> py_error + fl list list" where
  "cf_rows emb user_dict sim_user_dict [] = Inr []"
| "cf_rows emb user_dict sim_user_dict (uid # uids) =
     (case user_cf_row emb user_dict sim_user_dict uid of
        Inl e \<Rightarrow> Inl e
      | Inr r \<Rightarrow>
          (case cf_rows emb user_dict sim_user_dict uids of
             Inl e \<Rightarrow> Inl e
           | Inr rs \<Rightarrow> Inr (r @ rs)))"

text \<open>\<^verbatim>\<open>get_user_cf_embed\<close>, on a tensor of ids.\<close>

definition get_user_cf_embed ::
  "fl table \<Rightarrow> nat list \<Rightarrow> id_dict \<Rightarrow> id_dict \<Rightarrow> py_error + fl list list" where
  "get_user_cf_embed emb user_ids user_dict sim_user_dict =
     (case cf_rows emb user_dict sim_user_dict user_ids of
        Inl e \<Rightarrow> Inl e
      | Inr rs \<Rightarrow> if rs = [] then Inl AttributeError else Inr rs)"

text \<open>\<^verbatim>\<open>torch.cat((a, b), dim = -1)\<close> of two tensors with the same number of rows.\<close>

definition cat_cols :: "fl list list \<Rightarrow> fl list list \<Rightarrow> py_error + fl list list" where
  "cat_cols a b = (if length a = length b then Inr (map2 (@) a b) else Inl RuntimeError)"

text \<open>\<^verbatim>\<open>get_user_embed\<close>.\<close>

definition get_user_embed ::
  "kgat \<Rightarrow> fl table \<Rightarrow> nat list \<Rightarrow> id_dict \<Rightarrow> id_dict \<Rightarrow> py_error + fl list list" where
  "get_user_embed m emb user_ids user_dict sim_user_dict =
     (case get_user_kg_embed emb (IdTensor user_ids) user_dict of
        Inl e \<Rightarrow> Inl e
      | Inr kg_embed \<Rightarrow>
          (case get_user_cf_embed emb user_ids user_dict sim_user_dict of
             Inl e \<Rightarrow> Inl e
           | Inr cf_embed \<Rightarrow>
               (case cat_cols kg_embed cf_embed of
                  Inl e \<Rightarrow> Inl e
                | Inr final_embed \<Rightarrow> encoder_apply (user_encoder m) final_embed)))"

text \<open>\<^verbatim>\<open>all_embed[i]\<close> with one index: a row, or IndexError.\<close>

definition index_row :: "fl table \<Rightarrow> nat \<Rightarrow> py_error + fl list" where
  "index_row emb i = (if i < length (rws emb) then Inr (rws emb ! i) else Inl IndexError)"

text \<open>The inner loop of \<^verbatim>\<open>get_item_embed\<close>; the rows are one-dimensional here.\<close>

fun sim_item_loop ::
  "fl table \<Rightarrow> id_dict \<Rightarrow> nat \<Rightarrow> nat list \<Rightarrow> fl list option \<times> real
     \<Rightarrow> py_error + (fl list option \<times> real)" where
  "sim_item_loop all_embed item_dict iid [] acc = Inr acc"
| "sim_item_loop all_embed item_dict iid (sim_item # rest) (sim_item_embed, nrm) =
     (case calk_sim iid sim_item item_dict of
        Inl e \<Rightarrow> Inl e
      | Inr sim \<Rightarrow>
          (case index_row all_embed sim_item of
             Inl e \<Rightarrow> Inl e
           | Inr r \<Rightarrow>
               (let contrib = map (fscale sim) r;
                    new_embed = (case sim_item_embed of
                                   None \<Rightarrow> contrib
                                 | Some t \<Rightarrow> map2 fadd t contrib)
                in sim_item_loop all_embed item_dict iid rest (Some new_embed, nrm + sim))))"

definition item_cf_row :: "fl table \<Rightarrow> id_dict \<Rightarrow> id_dict \<Rightarrow> nat \<Rightarrow> py_error + fl list" where
  "item_cf_row all_embed sim_item_dict item_dict iid =
     (case sim_item_dict iid of
        None \<Rightarrow> Inl KeyError
      | Some sims \<Rightarrow>
          (case sim_item_loop all_embed item_dict iid sims (None, 0) of
             Inl e \<Rightarrow> Inl e
           | Inr acc \<Rightarrow>
               (case fst acc of
                  None \<Rightarrow> Inl ZeroDivisionError
                | Some t \<Rightarrow> Inr (map (\<lambda>x. fdiv x (snd acc)) t))))"

fun item_cf_rows :: "fl table \<Rightarrow> id_dict \<Rightarrow> id_dict \<Rightarrow> nat list \<Rightarrow> py_error + fl list list" where
  "item_cf_rows all_embed sim_item_dict item_dict [] = Inr []"
| "item_cf_rows all_embed sim_item_dict item_dict (iid # iids) =
     (case item_cf_row all_embed sim_item_dict item_dict iid of
        Inl e \<Rightarrow> Inl e
      | Inr r \<Rightarrow>
          (case item_cf_rows all_embed sim_item_dict item_dict iids of
             Inl e \<Rightarrow> Inl e
           | Inr rs \<Rightarrow> Inr (r # rs)))"

text \<open>
  The part of \<^verbatim>\<open>get_item_embed\<close> that computes \<^verbatim>\<open>cf_item_embed\<close>: the loop and the
  \<^verbatim>\<open>.view\<close>, which raises AttributeError on \<^verbatim>\<open>None\<close> when there is no id.
\<close>

definition get_item_cf_embed ::
  "fl table \<Rightarrow> nat list \<Rightarrow> id_dict \<Rightarrow> id_dict \<Rightarrow> py_error + fl list list" where
  "get_item_cf_embed all_embed item_ids sim_item_dict item_dict =
     (case item_cf_rows all_embed sim_item_dict item_dict item_ids of
        Inl e \<Rightarrow> Inl e
      | Inr rs \<Rightarrow> if rs = [] then Inl AttributeError else Inr rs)"

text \<open>\<^verbatim>\<open>get_item_embed\<close>.\<close>

definition get_item_embed ::
  "kgat \<Rightarrow> fl table \<Rightarrow> nat list \<Rightarrow> id_dict \<Rightarrow> id_dict \<Rightarrow> py_error + fl list list" where
  "get_item_embed m all_embed item_ids sim_item_dict item_dict =
     (case index_rows all_embed item_ids of
        Inl e \<Rightarrow> Inl e
      | Inr item_kg_embed \<Rightarrow>
          (case get_item_cf_embed all_embed item_ids sim_item_dict item_dict of
             Inl e \<Rightarrow> Inl e
           | Inr cf_item_embed \<Rightarrow>
               (case cat_cols item_kg_embed cf_item_embed of
                  Inl e \<Rightarrow> Inl e
                | Inr item_embed_final \<Rightarrow> encoder_apply (item_encoder m) item_embed_final)))"

section \<open>Attention\<close>

text \<open>
  \<^verbatim>\<open>nn.Embedding\<close> applied to a tensor of indices: IndexError when one of them is not
  below the number of rows.
\<close>

definition embedding ::
  "nat \<Rightarrow> nat \<Rightarrow> (nat \<Rightarrow> nat \<Rightarrow> real) \<Rightarrow> nat list \<Rightarrow> py_error + real list list" where
  "embedding num d w ids =
     (if list_all (\<lambda>i. i < num) ids
      then Inr (map (\<lambda>i. map (w i) [0..<d]) ids)
      else Inl IndexError)"

text \<open>\<^verbatim>\<open>torch.matmul(x, W)\<close> of a row \<open>x\<close> and a matrix \<open>W\<close> with \<open>k\<close> columns.\<close>

definition vec_mat :: "real list \<Rightarrow> (nat \<Rightarrow> nat \<Rightarrow> real) \<Rightarrow> nat \<Rightarrow> real list" where
  "vec_mat x W k =
     map (\<lambda>c. sum_list (map (\<lambda>j. x ! j * W j c) [0..<length x])) [0..<k]"

definition dot :: "real list \<Rightarrow> real list \<Rightarrow> real" where
  "dot x y = sum_list (map2 (*) x y)"

text \<open>Equation (4) for one edge, from the three looked-up rows and the projection.\<close>

definition edge_score ::
  "(nat \<Rightarrow> nat \<Rightarrow> real) \<Rightarrow> nat \<Rightarrow> real list \<Rightarrow> real list \<Rightarrow> real list \<Rightarrow> real" where
  "edge_score W k t_embed h_embed r_embed =
     (let r_mul_t = vec_mat t_embed W k;
          r_mul_h = vec_mat h_embed W k
      in dot r_mul_t (map tanh (map2 (+) r_mul_h r_embed)))"

text \<open>
  \<^verbatim>\<open>att_score\<close> on the batch of edges \<open>idxs\<close>. The arguments of each call are
  evaluated left to right: the lookup of the source ids comes before the read of
  \<^verbatim>\<open>self.W_r\<close>, which raises AttributeError while the attribute is not set.
\<close>

definition att_score :: "kgat \<Rightarrow> graph \<Rightarrow> nat list \<Rightarrow> py_error + real list" where
  "att_score m g idxs =
     (case embedding (n_entities m) (entity_dim m) (entity_embed m)
             (map (\<lambda>i. ndata_id g ! src (edges g ! i)) idxs) of
        Inl e \<Rightarrow> Inl e
      | Inr t_embed \<Rightarrow>
          (case W_r m of
             None \<Rightarrow> Inl AttributeError
           | Some W \<Rightarrow>
               (case embedding (n_entities m) (entity_dim m) (entity_embed m)
                       (map (\<lambda>i. ndata_id g ! dst (edges g ! i)) idxs) of
                  Inl e \<Rightarrow> Inl e
                | Inr h_embed \<Rightarrow>
                    (case embedding (n_relations m) (relation_dim m) (relation_embed m)
                            (map (\<lambda>i. etype (edges g ! i)) idxs) of
                       Inl e \<Rightarrow> Inl e
                     | Inr r_embed \<Rightarrow>
                         Inr (map (\<lambda>(t, h, r). edge_score W (relation_dim m) t h r)
                                  (zip t_embed (zip h_embed r_embed)))))))"

text \<open>
  \<^verbatim>\<open>g.apply_edges(f, edge_idxs)\<close> writes the values of \<open>f\<close> into the rows
  \<open>edge_idxs\<close> of the column \<^verbatim>\<open>'att'\<close>; a column that does not exist yet is created
  filled with zeros.
\<close>

definition write_rows :: "real list \<Rightarrow> nat list \<Rightarrow> real list \<Rightarrow> real list" where
  "write_rows col idxs vals = fold (\<lambda>(i, v) c. c[i := v]) (zip idxs vals) col"

text \<open>
  The loop of \<^verbatim>\<open>compute_attention\<close> over the relations still to visit. Each turn
  assigns \<^verbatim>\<open>self.W_r\<close>, so the model is returned with the result; an exception
  leaves the assignment of its turn in place.
\<close>

fun att_loop ::
  "kgat \<Rightarrow> graph \<Rightarrow> nat list \<Rightarrow> real list option \<Rightarrow> (py_error + real list option) \<times> kgat" where
  "att_loop m g [] col = (Inr col, m)"
| "att_loop m g (i # rest) col =
     (let edge_idxs = filter (\<lambda>e. etype (edges g ! e) = i) [0..<length (edges g)];
          m' = m\<lparr>W_r := Some (W_R m i)\<rparr>
      in case att_score m' g edge_idxs of
           Inl e \<Rightarrow> (Inl e, m')
         | Inr vals \<Rightarrow>
             att_loop m' g rest
               (Some (write_rows
                        (case col of None \<Rightarrow> replicate (length (edges g)) 0 | Some c \<Rightarrow> c)
                        edge_idxs vals)))"

text \<open>
  Modelled from the spec: \<^verbatim>\<open>edge_softmax_fix\<close> of \<^verbatim>\<open>utility/helper.py\<close> is not among the
  sources. Section 4.1: "apply softmax over each destination node's incoming edge
  scores (grouped by destination), yielding a probability distribution per
  destination over its in-edges".
\<close>

definition in_edges :: "graph \<Rightarrow> nat \<Rightarrow> nat list" where
  "in_edges g v = filter (\<lambda>e. dst (edges g ! e) = v) [0..<length (edges g)]"

definition edge_softmax_fix :: "graph \<Rightarrow> real list \<Rightarrow> real list" where
  "edge_softmax_fix g score =
     map (\<lambda>e. exp (score ! e)
               / sum_list (map (\<lambda>e'. exp (score ! e')) (in_edges g (dst (edges g ! e)))))
         [0..<length (edges g)]"

text \<open>
  The scores of \<^verbatim>\<open>compute_attention\<close> before Equation (5): the column \<^verbatim>\<open>'att'\<close> after
  the loop. \<^verbatim>\<open>g.edata.pop('att')\<close> raises KeyError when there is no such column.
\<close>

definition raw_attention :: "kgat \<Rightarrow> graph \<Rightarrow> (py_error + real list) \<times> kgat" where
  "raw_attention m g =
     (case att_loop m g [0..<n_relations m] (edata_att g) of
        (Inl e, m') \<Rightarrow> (Inl e, m')
      | (Inr None, m') \<Rightarrow> (Inl KeyError, m')
      | (Inr (Some score), m') \<Rightarrow> (Inr score, m'))"

definition compute_attention :: "kgat \<Rightarrow> graph \<Rightarrow> (py_error + real list) \<times> kgat" where
  "compute_attention m g =
     (case raw_attention m g of
        (Inl e, m') \<Rightarrow> (Inl e, m')
      | (Inr score, m') \<Rightarrow> (Inr (edge_softmax_fix g score), m'))"

text \<open>
  The raw score of the edge \<open>e\<close> as the spec words it (Section 4.1): with \<open>r\<close> the
  label of the edge, the source ("tail") and destination ("head") embeddings
  projected through \<open>W_r\<close>, and
  \<open>score = dot(projected_tail, tanh(projected_head + relation_embedding))\<close>. It is
  compared with the column the loop of the source computes.
\<close>

definition spec_raw_score :: "kgat \<Rightarrow> graph \<Rightarrow> nat \<Rightarrow> real" where
  "spec_raw_score m g e =
     (let r = etype (edges g ! e);
          tail_embedding = map (entity_embed m (ndata_id g ! src (edges g ! e))) [0..<entity_dim m];
          head_embedding = map (entity_embed m (ndata_id g ! dst (edges g ! e))) [0..<entity_dim m];
          relation_embedding = map (relation_embed m r) [0..<relation_dim m];
          projected_tail = vec_mat tail_embedding (W_R m r) (relation_dim m);
          projected_head = vec_mat head_embedding (W_R m r) (relation_dim m)
      in dot projected_tail (map tanh (map2 (+) projected_head relation_embedding)))"

section \<open>Knowledge-graph loss\<close>

text \<open>
  The scores and the loss are computed over the reals, as the attention is: which
  exceptions are raised and when the result is \<open>nan\<close> is the program's, the finite
  value of a loss is the program's up to its rounding only.
\<close>

text \<open>\<^verbatim>\<open>torch.mean\<close> of a one-dimensional tensor: \<open>nan\<close> when it has no entry.\<close>

definition mean :: "real list \<Rightarrow> fl" where
  "mean xs = (if xs = [] then NaN else Fin (sum_list xs / real (length xs)))"

definition L2_loss_mean :: "real list list \<Rightarrow> fl" where
  "L2_loss_mean x = mean (map (\<lambda>r. sum_list (map (\<lambda>a. a ^ 2) r) / 2) x)"

definition logsigmoid :: "real \<Rightarrow> real" where
  "logsigmoid x = ln (1 / (1 + exp (- x)))"

text \<open>Equation (1) for one triple, from the projected rows.\<close>

definition trans_score :: "real list \<Rightarrow> real list \<Rightarrow> real list \<Rightarrow> real" where
  "trans_score r_mul_h r_embed r_mul_t =
     sum_list (map (\<lambda>(a, b, c). (a + b - c) ^ 2) (zip r_mul_h (zip r_embed r_mul_t)))"

text \<open>\<^verbatim>\<open>torch.bmm(x.unsqueeze(1), W_r).squeeze(1)\<close>: the two batches must be as long.\<close>

definition bmm_rows ::
  "real list list \<Rightarrow> (nat \<Rightarrow> nat \<Rightarrow> real) list \<Rightarrow> nat \<Rightarrow> py_error + real list list" where
  "bmm_rows x Ws k =
     (if length x = length Ws then Inr (map2 (\<lambda>r W. vec_mat r W k) x Ws)
      else Inl RuntimeError)"

text \<open>
  \<^verbatim>\<open>calc_kg_loss\<close>, in two steps so that the scores can be named: \<open>kg_scores\<close> is the
  body up to Equation (1) together with the regulariser. \<^verbatim>\<open>self.W_R[r]\<close> is in range
  once \<^verbatim>\<open>self.relation_embed(r)\<close> has returned.
\<close>

record kg_terms =
  pos_score :: "real list"
  neg_score :: "real list"
  l2_loss :: fl

definition kg_scores ::
  "kgat \<Rightarrow> nat list \<Rightarrow> nat list \<Rightarrow> nat list \<Rightarrow> nat list \<Rightarrow> py_error + kg_terms" where
  "kg_scores m h r pos_t neg_t =
     (case embedding (n_relations m) (relation_dim m) (relation_embed m) r of
        Inl e \<Rightarrow> Inl e
      | Inr r_embed \<Rightarrow>
      let Ws = map (W_R m) r in
     (case embedding (n_entities m) (entity_dim m) (entity_embed m) h of
        Inl e \<Rightarrow> Inl e
      | Inr h_embed \<Rightarrow>
     (case embedding (n_entities m) (entity_dim m) (entity_embed m) pos_t of
        Inl e \<Rightarrow> Inl e
      | Inr pos_t_embed \<Rightarrow>
     (case embedding (n_entities m) (entity_dim m) (entity_embed m) neg_t of
        Inl e \<Rightarrow> Inl e
      | Inr neg_t_embed \<Rightarrow>
     (case bmm_rows h_embed Ws (relation_dim m) of
        Inl e \<Rightarrow> Inl e
      | Inr r_mul_h \<Rightarrow>
     (case bmm_rows pos_t_embed Ws (relation_dim m) of
        Inl e \<Rightarrow> Inl e
      | Inr r_mul_pos_t \<Rightarrow>
     (case bmm_rows neg_t_embed Ws (relation_dim m) of
        Inl e \<Rightarrow> Inl e
      | Inr r_mul_neg_t \<Rightarrow>
          Inr \<lparr>pos_score = map (\<lambda>(a, b, c). trans_score a b c)
                              (zip r_mul_h (zip r_embed r_mul_pos_t)),
               neg_score = map (\<lambda>(a, b, c). trans_score a b c)
                              (zip r_mul_h (zip r_embed r_mul_neg_t)),
               l2_loss = fadd (fadd (fadd (L2_loss_mean r_mul_h) (L2_loss_mean r_embed))
                                    (L2_loss_mean r_mul_pos_t))
                              (L2_loss_mean r_mul_neg_t)\<rparr>)))))))"

definition calc_kg_loss ::
  "kgat \<Rightarrow> nat list \<Rightarrow> nat list \<Rightarrow> nat list \<Rightarrow> nat list \<Rightarrow> py_error + fl" where
  "calc_kg_loss m h r pos_t neg_t =
     (case kg_scores m h r pos_t neg_t of
        Inl e \<Rightarrow> Inl e
      | Inr t \<Rightarrow>
          (let kg_loss = mean (map2 (\<lambda>n p. (- 1) * logsigmoid (n - p))
                                    (neg_score t) (pos_score t))
           in Inr (fadd kg_loss (fscale (kg_l2loss_lambda m) (l2_loss t)))))"

section \<open>Neighbourhood aggregation\<close>

text \<open>
  The initial values of a linear layer. The source draws them at random; here they
  are an argument.
\<close>

record lin_init =
  init_weight :: "nat \<Rightarrow> nat \<Rightarrow> real"
  init_bias :: "nat \<Rightarrow> real"

definition mk_linear :: "nat \<Rightarrow> nat \<Rightarrow> lin_init \<Rightarrow> linear" where
  "mk_linear i out ini =
     \<lparr>in_features = i, out_features = out, weight = init_weight ini,
      bias = Some (init_bias ini)\<rparr>"

text \<open>
  \<^verbatim>\<open>Aggregator.__init__\<close>. \<^verbatim>\<open>nn.Dropout(dropout)\<close> comes first and raises ValueError
  for a probability outside \<open>[0, 1]\<close>; then the scheme is looked at.
\<close>

definition Aggregator_init ::
  "nat \<Rightarrow> nat \<Rightarrow> real \<Rightarrow> string \<Rightarrow> lin_init \<times> lin_init \<Rightarrow> py_error + aggregator" where
  "Aggregator_init in_d out_d p ty ini =
     (if p < 0 \<or> 1 < p then Inl ValueError
      else if ty = ''gcn'' then
        Inr \<lparr>in_dim = in_d, out_dim = out_d, dropout = p, aggregator_type = ty,
             agg_W = Some (mk_linear in_d out_d (fst ini)), agg_W1 = None, agg_W2 = None\<rparr>
      else if ty = ''graphsage'' then
        Inr \<lparr>in_dim = in_d, out_dim = out_d, dropout = p, aggregator_type = ty,
             agg_W = Some (mk_linear (in_d * 2) out_d (fst ini)), agg_W1 = None, agg_W2 = None\<rparr>
      else if ty = ''bi-interaction'' then
        Inr \<lparr>in_dim = in_d, out_dim = out_d, dropout = p, aggregator_type = ty,
             agg_W = None, agg_W1 = Some (mk_linear in_d out_d (fst ini)),
             agg_W2 = Some (mk_linear in_d out_d (snd ini))\<rparr>
      else Inl NotImplementedError)"

text \<open>
  Equations (3) and (10): the message of an edge is the row of its source node times
  the attention of the edge; a node receives the sum of the messages of its in-edges,
  and zeros when it has none.
\<close>

definition neighbor_sum :: "graph \<Rightarrow> real list \<Rightarrow> real table \<Rightarrow> real table" where
  "neighbor_sum g att node =
     \<lparr>ncols = ncols node,
      rws = map (\<lambda>v. foldl (\<lambda>acc r. map2 (+) acc r) (replicate (ncols node) 0)
                        (map (\<lambda>e. map (\<lambda>x. x * att ! e) (rws node ! src (edges g ! e)))
                             (in_edges g v)))
                [0..<length (ndata_id g)]\<rparr>"

definition linear_real_row :: "linear \<Rightarrow> real list \<Rightarrow> real list" where
  "linear_real_row L x =
     map (\<lambda>i. sum_list (map (\<lambda>j. x ! j * weight L i j) [0..<length x])
               + (case bias L of None \<Rightarrow> 0 | Some b \<Rightarrow> b i))
         [0..<out_features L]"

definition linear_real :: "linear \<Rightarrow> real table \<Rightarrow> py_error + real table" where
  "linear_real L X =
     (if ncols X = in_features L
      then Inr \<lparr>ncols = out_features L, rws = map (linear_real_row L) (rws X)\<rparr>
      else Inl RuntimeError)"

definition leaky_relu :: "real \<Rightarrow> real" where
  "leaky_relu x = (if 0 \<le> x then x else x / 100)"

definition tab_map :: "('a \<Rightarrow> 'b) \<Rightarrow> 'a table \<Rightarrow> 'b table" where
  "tab_map f X = \<lparr>ncols = ncols X, rws = map (map f) (rws X)\<rparr>"

definition tab_zip :: "(real \<Rightarrow> real \<Rightarrow> real) \<Rightarrow> real table \<Rightarrow> real table \<Rightarrow> real table" where
  "tab_zip f X Y = \<lparr>ncols = ncols X, rws = map2 (map2 f) (rws X) (rws Y)\<rparr>"

definition tab_cat :: "'a table \<Rightarrow> 'a table \<Rightarrow> 'a table" where
  "tab_cat X Y = \<lparr>ncols = ncols X + ncols Y, rws = map2 (@) (rws X) (rws Y)\<rparr>"

text \<open>
  \<^verbatim>\<open>nn.Dropout\<close>: the identity unless the module is in training mode; then the entry
  \<open>(i, j)\<close> is kept and divided by \<open>1 - p\<close> where the mask says so, and zeroed
  elsewhere. The mask stands for the random draw.
\<close>

definition message_dropout :: "bool \<Rightarrow> real \<Rightarrow> (nat \<Rightarrow> nat \<Rightarrow> bool) \<Rightarrow> real table \<Rightarrow> real table" where
  "message_dropout tr p keep X =
     (if \<not> tr then X
      else \<lparr>ncols = ncols X,
            rws = map (\<lambda>i. map (\<lambda>j. if p = 1 then 0
                                      else if keep i j then (rws X ! i ! j) / (1 - p)
                                      else 0)
                                [0..<length (rws X ! i)])
                      [0..<length (rws X)]\<rparr>)"

text \<open>
  The column \<^verbatim>\<open>'N_h'\<close> after \<^verbatim>\<open>g.update_all\<close>, \<open>None\<close> when it does not exist. Both
  branches of the source compute the sum above when they write the column; they
  differ in the order in which the runtime accumulates it, and in this: the reduce
  function of the \<^verbatim>\<open>'predict'\<close> branch is a Python function, which the runtime calls
  only for nodes that received a message, so on a graph with no edge it is never
  called and the column is not created.
\<close>

definition update_all_N_h :: "string \<Rightarrow> graph \<Rightarrow> real list \<Rightarrow> real table \<Rightarrow> real table option" where
  "update_all_N_h mode g att node =
     (if mode = ''predict'' then
        (if edges g = [] then None else Some (neighbor_sum g att node))
      else Some (neighbor_sum g att node))"

text \<open>\<^verbatim>\<open>g.ndata['N_h']\<close>: KeyError when there is no such column.\<close>

definition ndata_N_h :: "real table option \<Rightarrow> py_error + real table" where
  "ndata_N_h col = (case col of None \<Rightarrow> Inl KeyError | Some t \<Rightarrow> Inr t)"

text \<open>
  \<^verbatim>\<open>Aggregator.forward\<close>. Assigning \<^verbatim>\<open>g.ndata['node']\<close> needs one row per node; the
  message function reads \<^verbatim>\<open>g.edata['att']\<close>, which the caller must have set. In each
  branch the layer is looked up before its argument is evaluated, so a missing layer
  comes before a missing column \<^verbatim>\<open>'N_h'\<close>.
\<close>

definition Aggregator_forward ::
  "aggregator \<Rightarrow> string \<Rightarrow> graph \<Rightarrow> real table \<Rightarrow> bool \<Rightarrow> (nat \<Rightarrow> nat \<Rightarrow> bool)
     \<Rightarrow> py_error + real table" where
  "Aggregator_forward a mode g node tr keep =
     (if length (rws node) \<noteq> length (ndata_id g) then Inl DGLError
      else case edata_att g of
        None \<Rightarrow> Inl KeyError
      | Some att \<Rightarrow>
          (let col = update_all_N_h mode g att node;
               out =
                 (if aggregator_type a = ''gcn'' then
                    (case agg_W a of
                       None \<Rightarrow> Inl AttributeError
                     | Some W \<Rightarrow>
                         (case ndata_N_h col of
                            Inl e \<Rightarrow> Inl e
                          | Inr N_h \<Rightarrow>
                              (case linear_real W (tab_zip (+) node N_h) of
                                 Inl e \<Rightarrow> Inl e
                               | Inr y \<Rightarrow> Inr (tab_map leaky_relu y))))
                  else if aggregator_type a = ''graphsage'' then
                    (case agg_W a of
                       None \<Rightarrow> Inl AttributeError
                     | Some W \<Rightarrow>
                         (case ndata_N_h col of
                            Inl e \<Rightarrow> Inl e
                          | Inr N_h \<Rightarrow>
                              (case linear_real W (tab_cat node N_h) of
                                 Inl e \<Rightarrow> Inl e
                               | Inr y \<Rightarrow> Inr (tab_map leaky_relu y))))
                  else if aggregator_type a = ''bi-interaction'' then
                    (case agg_W1 a of
                       None \<Rightarrow> Inl AttributeError
                     | Some W1 \<Rightarrow>
                         (case ndata_N_h col of
                            Inl e \<Rightarrow> Inl e
                          | Inr N_h \<Rightarrow>
                              (case linear_real W1 (tab_zip (+) node N_h) of
                                 Inl e \<Rightarrow> Inl e
                               | Inr y1 \<Rightarrow>
                                   (case agg_W2 a of
                                      None \<Rightarrow> Inl AttributeError
                                    | Some W2 \<Rightarrow>
                                        (case linear_real W2 (tab_zip (*) node N_h) of
                                           Inl e \<Rightarrow> Inl e
                                         | Inr y2 \<Rightarrow>
                                             Inr (tab_zip (+) (tab_map leaky_relu y1)
                                                              (tab_map leaky_relu y2)))))))
                  else Inl NotImplementedError)
           in case out of
                Inl e \<Rightarrow> Inl e
              | Inr y \<Rightarrow> Inr (message_dropout tr (dropout a) keep y)))"

text \<open>\<^verbatim>\<open>F.normalize(x, p = 2, dim = 1)\<close>: each row over the larger of its norm and \<open>1e-12\<close>.\<close>

definition normalize_row :: "real list \<Rightarrow> real list" where
  "normalize_row x =
     map (\<lambda>a. a / max (sqrt (sum_list (map (\<lambda>b. b ^ 2) x))) (1 / 10 ^ 12)) x"

text \<open>
  The loop of \<^verbatim>\<open>cf_embedding\<close>: the layers still to apply, the number of the next one
  (it selects the dropout mask) and the current \<^verbatim>\<open>ego_embed\<close>; the result is the list of
  the normalised layer outputs.
\<close>

fun cf_layers ::
  "aggregator list \<Rightarrow> nat \<Rightarrow> string \<Rightarrow> graph \<Rightarrow> bool \<Rightarrow> (nat \<Rightarrow> nat \<Rightarrow> nat \<Rightarrow> bool)
     \<Rightarrow> real table \<Rightarrow> py_error + real table list" where
  "cf_layers [] k mode g tr masks ego_embed = Inr []"
| "cf_layers (layer # layers) k mode g tr masks ego_embed =
     (case Aggregator_forward layer mode g ego_embed tr (masks k) of
        Inl e \<Rightarrow> Inl e
      | Inr ego' \<Rightarrow>
          (case cf_layers layers (Suc k) mode g tr masks ego' of
             Inl e \<Rightarrow> Inl e
           | Inr outs \<Rightarrow> Inr (ego'\<lparr>rws := map normalize_row (rws ego')\<rparr> # outs)))"

text \<open>
  \<^verbatim>\<open>cf_embedding\<close>; Equation (11) concatenates the initial rows and the layer outputs
  along the feature axis.
\<close>

definition cf_embedding ::
  "kgat \<Rightarrow> string \<Rightarrow> graph \<Rightarrow> (nat \<Rightarrow> nat \<Rightarrow> nat \<Rightarrow> bool) \<Rightarrow> py_error + real table" where
  "cf_embedding m mode g masks =
     (case embedding (n_entities m) (entity_dim m) (entity_embed m) (ndata_id g) of
        Inl e \<Rightarrow> Inl e
      | Inr rows \<Rightarrow>
          (let ego_embed = \<lparr>ncols = entity_dim m, rws = rows\<rparr>
           in case cf_layers (aggregator_layers m) 0 mode g (training m) masks ego_embed of
                Inl e \<Rightarrow> Inl e
              | Inr outs \<Rightarrow> Inr (foldl tab_cat ego_embed outs)))"

section \<open>Collaborative-filtering loss and score\<close>

fun fmul :: "fl \<Rightarrow> fl \<Rightarrow> fl" where
  "fmul (Fin a) y = fscale a y"
| "fmul x (Fin b) = fscale b x"
| "fmul NaN _ = NaN"
| "fmul _ NaN = NaN"
| "fmul PInf PInf = PInf"
| "fmul PInf NInf = NInf"
| "fmul NInf PInf = NInf"
| "fmul NInf NInf = PInf"

fun flogsigmoid :: "fl \<Rightarrow> fl" where
  "flogsigmoid (Fin x) = Fin (logsigmoid x)"
| "flogsigmoid PInf = Fin 0"
| "flogsigmoid NInf = NInf"
| "flogsigmoid NaN = NaN"

definition fsum :: "fl list \<Rightarrow> fl" where
  "fsum xs = foldl fadd (Fin 0) xs"

definition fmean :: "fl list \<Rightarrow> fl" where
  "fmean xs = fdiv (fsum xs) (real (length xs))"

definition fL2_loss_mean :: "fl list list \<Rightarrow> fl" where
  "fL2_loss_mean x = fmean (map (\<lambda>r. fdiv (fsum (map (\<lambda>a. fmul a a) r)) 2) x)"

text \<open>
  Broadcasting of two tensors along their first axis: equal lengths pair up, a
  length of one is repeated, anything else raises RuntimeError.
\<close>

definition bzip :: "'a list \<Rightarrow> 'b list \<Rightarrow> py_error + ('a \<times> 'b) list" where
  "bzip a b =
     (if length a = length b then Inr (zip a b)
      else if length a = 1 then Inr (map (\<lambda>y. (hd a, y)) b)
      else if length b = 1 then Inr (map (\<lambda>x. (x, hd b)) a)
      else Inl RuntimeError)"

text \<open>\<^verbatim>\<open>torch.sum(a * b, dim = 1)\<close> of two tensors of the same width.\<close>

definition row_products :: "fl list list \<Rightarrow> fl list list \<Rightarrow> py_error + fl list" where
  "row_products a b =
     (case bzip a b of
        Inl e \<Rightarrow> Inl e
      | Inr ps \<Rightarrow> Inr (map (\<lambda>(u, v). fsum (map2 fmul u v)) ps))"

definition calc_cf_loss ::
  "kgat \<Rightarrow> string \<Rightarrow> graph \<Rightarrow> nat list \<Rightarrow> nat list \<Rightarrow> nat list
     \<Rightarrow> id_dict \<Rightarrow> id_dict \<Rightarrow> id_dict \<Rightarrow> id_dict \<Rightarrow> (nat \<Rightarrow> nat \<Rightarrow> nat \<Rightarrow> bool)
     \<Rightarrow> py_error + fl" where
  "calc_cf_loss m mode g user_ids item_pos_ids item_neg_ids
       user_dict sim_user_dict item_dict sim_item_dict masks =
     (case cf_embedding m mode g masks of
        Inl e \<Rightarrow> Inl e
      | Inr all_real \<Rightarrow>
     (let all_embed = tab_map Fin all_real in
     (case get_user_embed m all_embed user_ids user_dict sim_user_dict of
        Inl e \<Rightarrow> Inl e
      | Inr user_embed \<Rightarrow>
     (case get_item_embed m all_embed item_pos_ids sim_item_dict item_dict of
        Inl e \<Rightarrow> Inl e
      | Inr item_pos_embed \<Rightarrow>
     (case get_item_embed m all_embed item_neg_ids sim_item_dict item_dict of
        Inl e \<Rightarrow> Inl e
      | Inr item_neg_embed \<Rightarrow>
     (case row_products user_embed item_pos_embed of
        Inl e \<Rightarrow> Inl e
      | Inr pos_sc \<Rightarrow>
     (case row_products user_embed item_neg_embed of
        Inl e \<Rightarrow> Inl e
      | Inr neg_sc \<Rightarrow>
     (case bzip pos_sc neg_sc of
        Inl e \<Rightarrow> Inl e
      | Inr ps \<Rightarrow>
          (let cf_loss = fmean (map (\<lambda>(p, n). fscale (- 1)
                                       (flogsigmoid (fadd p (fscale (- 1) n)))) ps);
               l2 = fadd (fadd (fL2_loss_mean user_embed) (fL2_loss_mean item_pos_embed))
                         (fL2_loss_mean item_neg_embed)
           in Inr (fadd cf_loss (fscale (cf_l2loss_lambda m) l2)))))))))))"

text \<open>\<^verbatim>\<open>cf_score\<close>; Equation (12) is the matrix of the inner products.\<close>

definition cf_score ::
  "kgat \<Rightarrow> string \<Rightarrow> graph \<Rightarrow> nat list \<Rightarrow> nat list
     \<Rightarrow> id_dict \<Rightarrow> id_dict \<Rightarrow> id_dict \<Rightarrow> id_dict \<Rightarrow> (nat \<Rightarrow> nat \<Rightarrow> nat \<Rightarrow> bool)
     \<Rightarrow> py_error + fl list list" where
  "cf_score m mode g user_ids item_ids user_dict sim_user_dict sim_item_dict item_dict masks =
     (case cf_embedding m mode g masks of
        Inl e \<Rightarrow> Inl e
      | Inr all_real \<Rightarrow>
     (let all_embed = tab_map Fin all_real in
     (case get_user_embed m all_embed user_ids user_dict sim_user_dict of
        Inl e \<Rightarrow> Inl e
      | Inr user_embed \<Rightarrow>
     (case get_item_embed m all_embed item_ids sim_item_dict item_dict of
        Inl e \<Rightarrow> Inl e
      | Inr item_embed \<Rightarrow>
          Inr (map (\<lambda>u. map (\<lambda>v. fsum (map2 fmul u v)) item_embed) user_embed)))))"

section \<open>The entry point\<close>

text \<open>
  \<^verbatim>\<open>forward(mode, *input)\<close>. The tuple \<^verbatim>\<open>input\<close> is one of the argument lists of the
  four operations; handing an operation the arguments of another one is a call with
  the wrong number of arguments, a TypeError. The masks stand for the random draws of
  the dropout layers. The result comes with the model, whose attribute \<^verbatim>\<open>W_r\<close>
  \<^verbatim>\<open>compute_attention\<close> assigns.
\<close>

datatype fwd_input =
    AttInput graph
  | CfLossInput graph "nat list" "nat list" "nat list" id_dict id_dict id_dict id_dict
  | KgLossInput "nat list" "nat list" "nat list" "nat list"
  | PredictInput graph "nat list" "nat list" id_dict id_dict id_dict id_dict

datatype retval = RetNone | RetAtt "real list" | RetLoss fl | RetScore "fl list list"

definition forward ::
  "kgat \<Rightarrow> string \<Rightarrow> fwd_input \<Rightarrow> (nat \<Rightarrow> nat \<Rightarrow> nat \<Rightarrow> bool) \<Rightarrow> (py_error + retval) \<times> kgat" where
  "forward m mode input masks =
     (if mode = ''calc_att'' then
        (case input of
           AttInput g \<Rightarrow>
             (case compute_attention m g of
                (Inl e, m') \<Rightarrow> (Inl e, m')
              | (Inr att, m') \<Rightarrow> (Inr (RetAtt att), m'))
         | _ \<Rightarrow> (Inl TypeError, m))
      else if mode = ''calc_cf_loss'' then
        (case input of
           CfLossInput g u ip ineg ud sud idict sid \<Rightarrow>
             (case calc_cf_loss m mode g u ip ineg ud sud idict sid masks of
                Inl e \<Rightarrow> (Inl e, m)
              | Inr l \<Rightarrow> (Inr (RetLoss l), m))
         | _ \<Rightarrow> (Inl TypeError, m))
      else if mode = ''calc_kg_loss'' then
        (case input of
           KgLossInput h r pos_t neg_t \<Rightarrow>
             (case calc_kg_loss m h r pos_t neg_t of
                Inl e \<Rightarrow> (Inl e, m)
              | Inr l \<Rightarrow> (Inr (RetLoss l), m))
         | _ \<Rightarrow> (Inl TypeError, m))
      else if mode = ''predict'' then
        (case input of
           PredictInput g u i ud sud sid idict \<Rightarrow>
             (case cf_score m mode g u i ud sud sid idict masks of
                Inl e \<Rightarrow> (Inl e, m)
              | Inr sc \<Rightarrow> (Inr (RetScore sc), m))
         | _ \<Rightarrow> (Inl TypeError, m))
      else (Inr RetNone, m))"

section \<open>Construction\<close>

text \<open>
  The arguments of \<^verbatim>\<open>KGAT.__init__\<close>: the fields of \<^verbatim>\<open>args\<close> it reads, with the two
  strings it evaluates given as the lists they denote, and the initial values of
  the parameters, which the source draws at random.
\<close>

record kgat_args =
  arg_use_pretrain :: int
  arg_entity_dim :: nat
  arg_relation_dim :: nat
  arg_aggregation_type :: string
  arg_conv_dim_list :: "nat list"
  arg_mess_dropout :: "real list"
  arg_kg_l2loss_lambda :: real
  arg_cf_l2loss_lambda :: real

record kgat_init =
  init_relation_embed :: "nat \<Rightarrow> nat \<Rightarrow> real"
  init_entity_embed :: "nat \<Rightarrow> nat \<Rightarrow> real"
  init_other_entity_embed :: "nat \<Rightarrow> nat \<Rightarrow> real"
  init_W_R :: "nat \<Rightarrow> nat \<Rightarrow> nat \<Rightarrow> real"
  init_layers :: "nat \<Rightarrow> lin_init \<times> lin_init"
  init_user_encoder :: "(nat \<Rightarrow> nat \<Rightarrow> real) \<times> (nat \<Rightarrow> nat \<Rightarrow> real)"
  init_item_encoder :: "(nat \<Rightarrow> nat \<Rightarrow> real) \<times> (nat \<Rightarrow> nat \<Rightarrow> real)"

text \<open>
  The loop that builds the layers: layer \<open>k\<close> maps width \<open>dims ! k\<close> to width
  \<open>dims ! (k + 1)\<close>; \<^verbatim>\<open>self.mess_dropout[k]\<close> raises IndexError past the end of the list.
\<close>

fun build_layers ::
  "nat list \<Rightarrow> real list \<Rightarrow> string \<Rightarrow> (nat \<Rightarrow> lin_init \<times> lin_init) \<Rightarrow> nat list
     \<Rightarrow> py_error + aggregator list" where
  "build_layers dims drops ty ini [] = Inr []"
| "build_layers dims drops ty ini (k # ks) =
     (if length drops \<le> k then Inl IndexError
      else case Aggregator_init (dims ! k) (dims ! (k + 1)) (drops ! k) ty (ini k) of
             Inl e \<Rightarrow> Inl e
           | Inr a \<Rightarrow>
               (case build_layers dims drops ty ini ks of
                  Inl e \<Rightarrow> Inl e
                | Inr as \<Rightarrow> Inr (a # as)))"

text \<open>
  \<^verbatim>\<open>nn.init.xavier_uniform_\<close> divides by the sum of the fan-in and the fan-out of the
  tensor, two Python numbers: ZeroDivisionError when the sum is 0.
\<close>

definition xavier_uniform :: "nat \<Rightarrow> nat \<Rightarrow> py_error + unit" where
  "xavier_uniform fan_in fan_out =
     (if fan_in + fan_out = 0 then Inl ZeroDivisionError else Inr ())"

text \<open>
  The entity table: with pretrained item rows, they come first and freshly drawn
  rows fill the table up to \<^verbatim>\<open>n_entities\<close>. A pretrained table with more rows than
  that raises RuntimeError when the other rows are allocated; these rows, of shape
  \<open>(n_entities - rows, entity_dim)\<close>, are then initialised; a pretrained table of
  another width raises RuntimeError in \<^verbatim>\<open>torch.cat\<close>.
\<close>

definition init_entity_table ::
  "kgat_args \<Rightarrow> nat \<Rightarrow> real table option \<Rightarrow> real table option \<Rightarrow> kgat_init
     \<Rightarrow> py_error + (nat \<Rightarrow> nat \<Rightarrow> real)" where
  "init_entity_table args n_ent user_pre_embed item_pre_embed ini =
     (case (user_pre_embed, item_pre_embed) of
        (Some up, Some ip) \<Rightarrow>
          (if arg_use_pretrain args = 1 then
             (if n_ent < length (rws ip) then Inl RuntimeError
              else case xavier_uniform (arg_entity_dim args) (n_ent - length (rws ip)) of
                Inl e \<Rightarrow> Inl e
              | Inr u \<Rightarrow>
                  (if ncols ip \<noteq> arg_entity_dim args then Inl RuntimeError
                   else Inr (\<lambda>i j. if i < length (rws ip) then rws ip ! i ! j
                                    else init_other_entity_embed ini (i - length (rws ip)) j)))
           else Inr (init_entity_embed ini))
      | _ \<Rightarrow> Inr (init_entity_embed ini))"

text \<open>
  \<^verbatim>\<open>KGAT.__init__\<close>. After the entity table the projections \<^verbatim>\<open>W_R\<close>, of shape
  \<open>(n_relations, entity_dim, relation_dim)\<close>, are initialised: their fan-in is
  \<open>entity_dim * relation_dim\<close> and their fan-out \<open>n_relations * relation_dim\<close>. Then
  the layers are built, then the two encoders.
\<close>

definition KGAT_init ::
  "kgat_args \<Rightarrow> nat \<Rightarrow> nat \<Rightarrow> nat \<Rightarrow> real table option \<Rightarrow> real table option \<Rightarrow> kgat_init
     \<Rightarrow> py_error + kgat" where
  "KGAT_init args n_usr n_ent n_rel user_pre_embed item_pre_embed ini =
     (case init_entity_table args n_ent user_pre_embed item_pre_embed ini of
        Inl e \<Rightarrow> Inl e
      | Inr ent \<Rightarrow>
     (case xavier_uniform (arg_entity_dim args * arg_relation_dim args)
                          (n_rel * arg_relation_dim args) of
        Inl e \<Rightarrow> Inl e
      | Inr u \<Rightarrow>
          (let dims = arg_entity_dim args # arg_conv_dim_list args;
               layers = length (arg_conv_dim_list args)
           in case build_layers dims (arg_mess_dropout args) (arg_aggregation_type args)
                     (init_layers ini) [0..<layers] of
                Inl e \<Rightarrow> Inl e
              | Inr aggs \<Rightarrow>
                  Inr \<lparr>use_pretrain = arg_use_pretrain args,
                       n_users = n_usr, n_entities = n_ent, n_relations = n_rel,
                       entity_dim = arg_entity_dim args,
                       relation_dim = arg_relation_dim args,
                       aggregation_type = arg_aggregation_type args,
                       conv_dim_list = dims,
                       mess_dropout = arg_mess_dropout args,
                       n_layers = layers,
                       kg_l2loss_lambda = arg_kg_l2loss_lambda args,
                       cf_l2loss_lambda = arg_cf_l2loss_lambda args,
                       relation_embed = init_relation_embed ini,
                       entity_embed = ent,
                       W_R = init_W_R ini,
                       aggregator_layers = aggs,
                       user_encoder = mk_encoder (fst (init_user_encoder ini))
                                                 (snd (init_user_encoder ini)),
                       item_encoder = mk_encoder (fst (init_item_encoder ini))
                                                 (snd (init_item_encoder ini)),
                       W_r = None,
                       training = True\<rparr>)))"

section \<open>Small instances\<close>

text \<open>
  A model with three entities and one relation, all of width one: entity \<open>i\<close> has
  the embedding \<open>[i]\<close>, the relation embedding is \<open>[0]\<close> and the projection is
  \<open>[[1]]\<close>; no aggregation layer; encoders with zero weights.
\<close>

definition toy_model :: kgat where
  "toy_model =
     \<lparr>use_pretrain = 0, n_users = 0, n_entities = 3, n_relations = 1,
      entity_dim = 1, relation_dim = 1, aggregation_type = ''gcn'',
      conv_dim_list = [1], mess_dropout = [], n_layers = 0,
      kg_l2loss_lambda = 1 / 100, cf_l2loss_lambda = 1 / 100,
      relation_embed = (\<lambda>r k. 0), entity_embed = (\<lambda>i j. real i),
      W_R = (\<lambda>r j k. 1), aggregator_layers = [],
      user_encoder = mk_encoder (\<lambda>i j. 0) (\<lambda>i j. 0),
      item_encoder = mk_encoder (\<lambda>i j. 0) (\<lambda>i j. 0),
      W_r = None, training = False\<rparr>"

text \<open>The graph of the scenario of the spec: nodes A, B, C and the edges A to C, B to C.\<close>

definition toy_graph :: graph where
  "toy_graph =
     \<lparr>ndata_id = [0, 1, 2],
      edges = [\<lparr>src = 0, dst = 2, etype = 0\<rparr>, \<lparr>src = 1, dst = 2, etype = 0\<rparr>],
      edata_att = None\<rparr>"

text \<open>
  What \<^verbatim>\<open>Aggregator.__init__\<close> establishes about the layers it creates: each maps to
  \<^verbatim>\<open>out_dim\<close> features.
\<close>

definition wf_aggregator :: "aggregator \<Rightarrow> bool" where
  "wf_aggregator a =
     ((case agg_W a of None \<Rightarrow> True | Some L \<Rightarrow> out_features L = out_dim a)
      \<and> (case agg_W1 a of None \<Rightarrow> True | Some L \<Rightarrow> out_features L = out_dim a)
      \<and> (case agg_W2 a of None \<Rightarrow> True | Some L \<Rightarrow> out_features L = out_dim a))"

text \<open>
  A configuration whose widths add up to 176 (an entity width of 64 and three layers
  of widths 64, 32 and 16), initial values that are all zero, and a graph with
  one node, one edge from the node to itself and the attention column set.
\<close>

definition wide_args :: kgat_args where
  "wide_args =
     \<lparr>arg_use_pretrain = 0, arg_entity_dim = 64, arg_relation_dim = 64,
      arg_aggregation_type = ''gcn'', arg_conv_dim_list = [64, 32, 16],
      arg_mess_dropout = [1 / 10, 1 / 10, 1 / 10],
      arg_kg_l2loss_lambda = 1 / 100000, arg_cf_l2loss_lambda = 1 / 100000\<rparr>"

definition zero_init :: kgat_init where
  "zero_init =
     \<lparr>init_relation_embed = (\<lambda>r k. 0), init_entity_embed = (\<lambda>i j. 0),
      init_other_entity_embed = (\<lambda>i j. 0), init_W_R = (\<lambda>r j k. 0),
      init_layers = (\<lambda>k. (\<lparr>init_weight = (\<lambda>i j. 0), init_bias = (\<lambda>i. 0)\<rparr>,
                          \<lparr>init_weight = (\<lambda>i j. 0), init_bias = (\<lambda>i. 0)\<rparr>)),
      init_user_encoder = (\<lambda>i j. 0, \<lambda>i j. 0),
      init_item_encoder = (\<lambda>i j. 0, \<lambda>i j. 0)\<rparr>"

definition loop_graph :: graph where
  "loop_graph =
     \<lparr>ndata_id = [0], edges = [\<lparr>src = 0, dst = 0, etype = 0\<rparr>], edata_att = Some [1]\<rparr>"

text \<open>Python's classes of the exceptions above.\<close>

definition is_LookupError :: "py_error \<Rightarrow> bool" where
  "is_LookupError e = (e = KeyError \<or> e = IndexError)"

definition is_ArithmeticError :: "py_error \<Rightarrow> bool" where
  "is_ArithmeticError e = (e = ZeroDivisionError)"

section \<open>Properties of the fusion stage\<close>

lemma calk_sim_nonneg: "calk_sim a b d = Inr s \<Longrightarrow> 0 \<le> s"
  by (auto simp: calk_sim_def Let_def split: option.splits if_splits)

lemma sum_dim0_Nil: "sum_dim0 d [] = replicate d (Fin 0)"
  by (simp add: sum_dim0_def)

lemma user_kg_row_absent: "user_dict uid = None \<Longrightarrow> user_kg_row emb user_dict uid = Inl KeyError"
  by (simp add: user_kg_row_def)

lemma user_kg_row_empty:
  "user_dict uid = Some [] \<Longrightarrow> user_kg_row emb user_dict uid = Inr (replicate (ncols emb) NaN)"
  by (simp add: user_kg_row_def index_rows_def sum_dim0_def)

lemma user_kg_row_errors:
  "user_kg_row emb user_dict uid = Inl e \<Longrightarrow> e = KeyError \<or> e = IndexError"
  by (auto simp: user_kg_row_def index_rows_def split: option.splits if_splits sum.splits)

lemma kg_rows_errors:
  "kg_rows emb user_dict uids = Inl e \<Longrightarrow> e = KeyError \<or> e = IndexError"
  by (induction uids) (auto split: sum.splits dest: user_kg_row_errors)

lemma kg_rows_absent:
  "uid \<in> set uids \<Longrightarrow> user_dict uid = None \<Longrightarrow> \<exists>e. kg_rows emb user_dict uids = Inl e"
  by (induction uids) (auto split: sum.splits simp: user_kg_row_absent)

text \<open>
  C5. A user id that is absent from the Interaction Dictionary makes
  \<^verbatim>\<open>get_user_kg_embed\<close> fail with a LookupError: KeyError for a single id, and KeyError or
  IndexError (the first failure of the batch) for a tensor of ids that contains it.
  An empty interaction list is not rejected: the sum over no rows is divided by the
  length 0 as a tensor division, and the user's row is \<open>nan\<close> in every entry.
\<close>

theorem get_user_kg_embed_lookup:
  "(uid \<in> set uids \<and> user_dict uid = None \<longrightarrow>
      (\<exists>e. get_user_kg_embed emb (IdTensor uids) user_dict = Inl e \<and> is_LookupError e)) \<and>
   (user_dict uid = None \<longrightarrow> get_user_kg_embed emb (NpFloat uid) user_dict = Inl KeyError) \<and>
   (user_dict uid = Some [] \<longrightarrow>
      get_user_kg_embed emb (NpFloat uid) user_dict = Inr [replicate (ncols emb) NaN] \<and>
      get_user_kg_embed emb (IdTensor [uid]) user_dict = Inr [replicate (ncols emb) NaN])"
proof (intro conjI impI)
  assume a: "uid \<in> set uids \<and> user_dict uid = None"
  then obtain e where e: "kg_rows emb user_dict uids = Inl e"
    using kg_rows_absent by blast
  then have "is_LookupError e"
    using kg_rows_errors by (auto simp: is_LookupError_def)
  with e show "\<exists>e. get_user_kg_embed emb (IdTensor uids) user_dict = Inl e \<and> is_LookupError e"
    by (simp add: get_user_kg_embed_def)
next
  assume "user_dict uid = None"
  then show "get_user_kg_embed emb (NpFloat uid) user_dict = Inl KeyError"
    by (simp add: get_user_kg_embed_def user_kg_row_absent)
next
  assume "user_dict uid = Some []"
  then show "get_user_kg_embed emb (NpFloat uid) user_dict = Inr [replicate (ncols emb) NaN]"
    by (simp add: get_user_kg_embed_def user_kg_row_empty)
next
  assume "user_dict uid = Some []"
  then show "get_user_kg_embed emb (IdTensor [uid]) user_dict = Inr [replicate (ncols emb) NaN]"
    by (simp add: get_user_kg_embed_def user_kg_row_empty)
qed

theorem get_user_kg_embed_lookup_witness:
  "(\<exists>e. get_user_kg_embed \<lparr>ncols = 1, rws = [[Fin 1]]\<rparr> (IdTensor [3, 5]) [3 \<mapsto> [0]] = Inl e
        \<and> is_LookupError e)
   \<and> get_user_kg_embed \<lparr>ncols = 1, rws = [[Fin 1]]\<rparr> (NpFloat 5) [3 \<mapsto> [0]] = Inl KeyError
   \<and> get_user_kg_embed \<lparr>ncols = 1, rws = [[Fin 1]]\<rparr> (NpFloat 5) [5 \<mapsto> []] = Inr [[NaN]]"
proof -
  let ?E = "\<lparr>ncols = 1, rws = [[Fin 1]]\<rparr>"
  have a: "(5::nat) \<in> set [3, 5] \<and> [3 \<mapsto> [0::nat]] (5::nat) = None" by simp
  have b: "[5 \<mapsto> []] (5::nat) = Some ([]::nat list)" by simp
  have 1: "(\<exists>e. get_user_kg_embed ?E (IdTensor [3, 5]) [3 \<mapsto> [0]] = Inl e \<and> is_LookupError e)
      \<and> get_user_kg_embed ?E (NpFloat 5) [3 \<mapsto> [0]] = Inl KeyError"
    using get_user_kg_embed_lookup [of "5::nat" "[3, 5]" "[3 \<mapsto> [0]]" ?E] a by simp
  have 3: "get_user_kg_embed ?E (NpFloat 5) [5 \<mapsto> []] = Inr [[NaN]]"
    using get_user_kg_embed_lookup [of "5::nat" "[]" "[5 \<mapsto> []]" ?E] b by simp
  from 1 3 show ?thesis by blast
qed

text \<open>
  The claim as stated asks for a LookupError on an empty interaction list; the code
  returns a row of \<open>nan\<close> there.
\<close>

theorem empty_interaction_list_counterexample:
  "get_user_kg_embed \<lparr>ncols = 1, rws = [[Fin 1]]\<rparr> (IdTensor [0]) [0 \<mapsto> []] = Inr [[NaN]]"
  by (simp add: get_user_kg_embed_def user_kg_row_def index_rows_def sum_dim0_def)



lemma user_cf_row_empty:
  "sim_user_dict uid = Some [] \<Longrightarrow>
     user_cf_row emb user_dict sim_user_dict uid = Inl ZeroDivisionError"
  by (simp add: user_cf_row_def div_by_norm_def)

lemma item_cf_row_empty:
  "sim_item_dict iid = Some [] \<Longrightarrow>
     item_cf_row all_embed sim_item_dict item_dict iid = Inl ZeroDivisionError"
  by (simp add: item_cf_row_def)

lemma cf_rows_append:
  "cf_rows emb ud sd pre = Inr rs \<Longrightarrow>
     cf_rows emb ud sd (pre @ rest) =
       (case cf_rows emb ud sd rest of Inl e \<Rightarrow> Inl e | Inr rs' \<Rightarrow> Inr (rs @ rs'))"
  by (induction pre arbitrary: rs) (auto split: sum.splits)

lemma item_cf_rows_append:
  "item_cf_rows emb sd idict pre = Inr rs \<Longrightarrow>
     item_cf_rows emb sd idict (pre @ rest) =
       (case item_cf_rows emb sd idict rest of Inl e \<Rightarrow> Inl e | Inr rs' \<Rightarrow> Inr (rs @ rs'))"
  by (induction pre arbitrary: rs) (auto split: sum.splits)

lemma cf_rows_fails:
  "uid \<in> set uids \<Longrightarrow> user_cf_row emb ud sd uid = Inl e \<Longrightarrow> \<exists>e'. cf_rows emb ud sd uids = Inl e'"
  by (induction uids) (auto split: sum.splits)

lemma item_cf_rows_fails:
  "iid \<in> set iids \<Longrightarrow> item_cf_row emb sd idict iid = Inl e \<Longrightarrow>
     \<exists>e'. item_cf_rows emb sd idict iids = Inl e'"
  by (induction iids) (auto split: sum.splits)

text \<open>
  C4. With an empty similarity-neighbour list the CF-context computation of that user
  (or item) raises ZeroDivisionError, an ArithmeticError: numerator and normaliser are
  still the Python int 0. A batch that contains such an id never returns a value, and
  the exception is this one whenever the ids before it were computed.
\<close>

theorem empty_neighbor_list_raises:
  "(sim_user_dict uid = Some [] \<longrightarrow>
      user_cf_row emb user_dict sim_user_dict uid = Inl ZeroDivisionError) \<and>
   (sim_user_dict uid = Some [] \<and> cf_rows emb user_dict sim_user_dict pre = Inr rs \<longrightarrow>
      get_user_cf_embed emb (pre @ uid # post) user_dict sim_user_dict = Inl ZeroDivisionError) \<and>
   (sim_user_dict uid = Some [] \<and> uid \<in> set user_ids \<longrightarrow>
      (\<exists>e. get_user_cf_embed emb user_ids user_dict sim_user_dict = Inl e) \<and>
      (\<exists>e. get_user_embed m emb user_ids user_dict sim_user_dict = Inl e)) \<and>
   (sim_item_dict iid = Some [] \<longrightarrow>
      item_cf_row emb sim_item_dict item_dict iid = Inl ZeroDivisionError) \<and>
   (sim_item_dict iid = Some [] \<and> item_cf_rows emb sim_item_dict item_dict ipre = Inr irs \<longrightarrow>
      get_item_cf_embed emb (ipre @ iid # ipost) sim_item_dict item_dict = Inl ZeroDivisionError) \<and>
   (sim_item_dict iid = Some [] \<and> iid \<in> set item_ids \<longrightarrow>
      (\<exists>e. get_item_cf_embed emb item_ids sim_item_dict item_dict = Inl e) \<and>
      (\<exists>e. get_item_embed m emb item_ids sim_item_dict item_dict = Inl e)) \<and>
   is_ArithmeticError ZeroDivisionError"
proof (intro conjI impI)
  show "is_ArithmeticError ZeroDivisionError" by (simp add: is_ArithmeticError_def)
next
  assume "sim_user_dict uid = Some []"
  then show "user_cf_row emb user_dict sim_user_dict uid = Inl ZeroDivisionError"
    by (rule user_cf_row_empty)
next
  assume a: "sim_user_dict uid = Some [] \<and> cf_rows emb user_dict sim_user_dict pre = Inr rs"
  then have "cf_rows emb user_dict sim_user_dict (pre @ uid # post) = Inl ZeroDivisionError"
    by (simp add: cf_rows_append user_cf_row_empty)
  then show "get_user_cf_embed emb (pre @ uid # post) user_dict sim_user_dict = Inl ZeroDivisionError"
    by (simp add: get_user_cf_embed_def)
next
  assume a: "sim_user_dict uid = Some [] \<and> uid \<in> set user_ids"
  then obtain e where e: "cf_rows emb user_dict sim_user_dict user_ids = Inl e"
    using cf_rows_fails user_cf_row_empty by blast
  then show "\<exists>e. get_user_cf_embed emb user_ids user_dict sim_user_dict = Inl e"
    by (simp add: get_user_cf_embed_def)
  then show "\<exists>e. get_user_embed m emb user_ids user_dict sim_user_dict = Inl e"
    by (auto simp: get_user_embed_def split: sum.splits)
next
  assume "sim_item_dict iid = Some []"
  then show "item_cf_row emb sim_item_dict item_dict iid = Inl ZeroDivisionError"
    by (rule item_cf_row_empty)
next
  assume a: "sim_item_dict iid = Some [] \<and> item_cf_rows emb sim_item_dict item_dict ipre = Inr irs"
  then have "item_cf_rows emb sim_item_dict item_dict (ipre @ iid # ipost) = Inl ZeroDivisionError"
    by (simp add: item_cf_rows_append item_cf_row_empty)
  then show "get_item_cf_embed emb (ipre @ iid # ipost) sim_item_dict item_dict = Inl ZeroDivisionError"
    by (simp add: get_item_cf_embed_def)
next
  assume a: "sim_item_dict iid = Some [] \<and> iid \<in> set item_ids"
  then obtain e where e: "item_cf_rows emb sim_item_dict item_dict item_ids = Inl e"
    using item_cf_rows_fails item_cf_row_empty by blast
  then show "\<exists>e. get_item_cf_embed emb item_ids sim_item_dict item_dict = Inl e"
    by (simp add: get_item_cf_embed_def)
  then show "\<exists>e. get_item_embed m emb item_ids sim_item_dict item_dict = Inl e"
    by (auto simp: get_item_embed_def split: sum.splits)
qed

theorem empty_neighbor_list_raises_witness:
  "user_cf_row \<lparr>ncols = 1, rws = [[Fin 1]]\<rparr> Map.empty [0 \<mapsto> []] 0 = Inl ZeroDivisionError
   \<and> get_user_cf_embed \<lparr>ncols = 1, rws = [[Fin 1]]\<rparr> [0] Map.empty [0 \<mapsto> []]
       = Inl ZeroDivisionError
   \<and> item_cf_row \<lparr>ncols = 1, rws = [[Fin 1]]\<rparr> [0 \<mapsto> []] Map.empty 0 = Inl ZeroDivisionError
   \<and> get_item_cf_embed \<lparr>ncols = 1, rws = [[Fin 1]]\<rparr> [0] [0 \<mapsto> []] Map.empty
       = Inl ZeroDivisionError"
proof -
  let ?E = "\<lparr>ncols = 1, rws = [[Fin 1]]\<rparr> :: fl table"
  let ?S = "[0 \<mapsto> []] :: id_dict"
  have s: "?S 0 = Some []" by simp
  have u: "cf_rows ?E Map.empty ?S [] = Inr []" by simp
  have i: "item_cf_rows ?E ?S Map.empty [] = Inr []" by simp
  show ?thesis
    using empty_neighbor_list_raises
      [where sim_user_dict = ?S and uid = 0 and emb = ?E and user_dict = Map.empty
         and pre = "[]" and rs = "[]" and post = "[]"
         and sim_item_dict = ?S and iid = 0 and item_dict = Map.empty
         and ipre = "[]" and irs = "[]" and ipost = "[]"]
      s u i
    by simp
qed






section \<open>Properties of construction and dispatch\<close>

text \<open>
  C8. Constructing an aggregator with a scheme name other than \<^verbatim>\<open>gcn\<close>,
  \<^verbatim>\<open>graphsage\<close> and \<^verbatim>\<open>bi-interaction\<close> fails in \<^verbatim>\<open>__init__\<close>: no aggregator is returned,
  so no forward computation can run on it. The exception is NotImplementedError
  whenever the dropout probability is valid (an invalid one raises ValueError first),
  and the loop of \<^verbatim>\<open>KGAT.__init__\<close> that builds at least one layer fails with it.
\<close>

theorem unknown_scheme_fails_at_construction:
  assumes "ty \<noteq> ''gcn''" and "ty \<noteq> ''graphsage''" and "ty \<noteq> ''bi-interaction''"
  shows "(\<exists>e. Aggregator_init i out p ty ini = Inl e)
       \<and> (0 \<le> p \<and> p \<le> 1 \<longrightarrow> Aggregator_init i out p ty ini = Inl NotImplementedError)
       \<and> (ks \<noteq> [] \<longrightarrow> (\<exists>e. build_layers dims drops ty inis ks = Inl e))"
proof -
  have a: "\<And>i out p ini. \<exists>e. Aggregator_init i out p ty ini = Inl e"
    using assms by (simp add: Aggregator_init_def)
  have b: "0 \<le> p \<and> p \<le> 1 \<longrightarrow> Aggregator_init i out p ty ini = Inl NotImplementedError"
    using assms by (auto simp: Aggregator_init_def)
  have c: "ks \<noteq> [] \<longrightarrow> (\<exists>e. build_layers dims drops ty inis ks = Inl e)"
  proof (cases ks)
    case Nil
    then show ?thesis by simp
  next
    case (Cons k rest)
    obtain e where "Aggregator_init (dims ! k) (dims ! (k + 1)) (drops ! k) ty (inis k) = Inl e"
      using a by blast
    with Cons show ?thesis by simp
  qed
  from a b c show ?thesis by blast
qed

theorem unknown_scheme_fails_at_construction_witness:
  "Aggregator_init 64 32 (1 / 10) ''mean''
       (\<lparr>init_weight = (\<lambda>i j. 0), init_bias = (\<lambda>i. 0)\<rparr>,
        \<lparr>init_weight = (\<lambda>i j. 0), init_bias = (\<lambda>i. 0)\<rparr>) = Inl NotImplementedError
   \<and> (\<exists>e. build_layers [64, 32] [1 / 10] ''mean''
              (\<lambda>k. (\<lparr>init_weight = (\<lambda>i j. 0), init_bias = (\<lambda>i. 0)\<rparr>,
                    \<lparr>init_weight = (\<lambda>i j. 0), init_bias = (\<lambda>i. 0)\<rparr>)) [0] = Inl e)"
  using unknown_scheme_fails_at_construction
          [where ty = "''mean''" and i = 64 and out = 32 and p = "1 / 10"
             and ini = "(\<lparr>init_weight = (\<lambda>i j. 0), init_bias = (\<lambda>i. 0)\<rparr>,
                         \<lparr>init_weight = (\<lambda>i j. 0), init_bias = (\<lambda>i. 0)\<rparr>)"
             and ks = "[0]" and dims = "[64, 32]" and drops = "[1 / 10]"
             and inis = "\<lambda>k. (\<lparr>init_weight = (\<lambda>i j. 0), init_bias = (\<lambda>i. 0)\<rparr>,
                              \<lparr>init_weight = (\<lambda>i j. 0), init_bias = (\<lambda>i. 0)\<rparr>)"]
  by simp

text \<open>
  C10. \<^verbatim>\<open>forward\<close> with a mode string other than \<^verbatim>\<open>calc_att\<close>, \<^verbatim>\<open>calc_cf_loss\<close>,
  \<^verbatim>\<open>calc_kg_loss\<close> and \<^verbatim>\<open>predict\<close> returns \<^verbatim>\<open>None\<close>: it raises nothing, whatever the
  arguments are, calls none of the four operations and leaves the model as it was.
\<close>

theorem forward_unknown_mode_returns_None:
  assumes "mode \<noteq> ''calc_att''" and "mode \<noteq> ''calc_cf_loss''"
    and "mode \<noteq> ''calc_kg_loss''" and "mode \<noteq> ''predict''"
  shows "forward m mode input masks = (Inr RetNone, m)"
  using assms by (simp add: forward_def)

theorem forward_unknown_mode_returns_None_witness:
  "forward toy_model ''train'' (AttInput toy_graph) (\<lambda>k i j. True) = (Inr RetNone, toy_model)"
  using forward_unknown_mode_returns_None [where mode = "''train''"]
  by simp

section \<open>Properties of the attention\<close>

lemma sum_list_pos_map:
  "xs \<noteq> [] \<Longrightarrow> (\<And>x. x \<in> set xs \<Longrightarrow> 0 < f x) \<Longrightarrow> 0 < sum_list (map f xs :: real list)"
proof (induction xs)
  case Nil
  then show ?case by simp
next
  case (Cons a xs)
  show ?case
  proof (cases "xs = []")
    case True
    with Cons.prems show ?thesis by simp
  next
    case False
    with Cons have "0 < sum_list (map f xs)" by simp
    moreover have "0 < f a" using Cons.prems by simp
    ultimately show ?thesis by simp
  qed
qed

lemma sum_list_map_divide:
  "sum_list (map (\<lambda>x. f x / c) xs) = sum_list (map f xs) / (c :: real)"
  by (induction xs) (simp_all add: add_divide_distrib)

lemma in_edges_member:
  "e \<in> set (in_edges g v) \<longleftrightarrow> e < length (edges g) \<and> dst (edges g ! e) = v"
  by (auto simp: in_edges_def)

lemma edge_softmax_fix_nth:
  assumes "e \<in> set (in_edges g v)"
  shows "edge_softmax_fix g score ! e
           = exp (score ! e) / sum_list (map (\<lambda>e'. exp (score ! e')) (in_edges g v))"
  using assms by (simp add: edge_softmax_fix_def in_edges_member)

lemma edge_softmax_fix_sums_to_one:
  assumes "in_edges g v \<noteq> []"
  shows "sum_list (map (\<lambda>e. edge_softmax_fix g score ! e) (in_edges g v)) = 1"
proof -
  let ?S = "sum_list (map (\<lambda>e'. exp (score ! e')) (in_edges g v))"
  have pos: "0 < ?S" using assms by (rule sum_list_pos_map) simp
  have "map (\<lambda>e. edge_softmax_fix g score ! e) (in_edges g v)
          = map (\<lambda>e. exp (score ! e) / ?S) (in_edges g v)"
    by (rule map_cong) (simp_all add: edge_softmax_fix_nth)
  then have "sum_list (map (\<lambda>e. edge_softmax_fix g score ! e) (in_edges g v)) = ?S / ?S"
    by (simp only: sum_list_map_divide)
  with pos show ?thesis by simp
qed

lemma compute_attention_is_softmax:
  assumes "compute_attention m g = (Inr att, m')"
  shows "\<exists>score. raw_attention m g = (Inr score, m') \<and> att = edge_softmax_fix g score"
  using assms
  by (auto simp: compute_attention_def split: prod.splits sum.splits)

lemma map_zip3:
  "map (\<lambda>(t, h, r). F t h r) (zip (map a xs) (zip (map b xs) (map c xs)))
     = map (\<lambda>x. F (a x) (b x) (c x)) xs"
  by (induction xs) simp_all

lemma embedding_rows:
  "embedding n d w ids = Inr rows \<Longrightarrow> rows = map (\<lambda>i. map (w i) [0..<d]) ids"
  by (auto simp: embedding_def split: if_splits)

lemma att_score_vals:
  assumes "att_score m g idxs = Inr vals" and "W_r m = Some W"
  shows "vals = map (\<lambda>i. edge_score W (relation_dim m)
                        (map (entity_embed m (ndata_id g ! src (edges g ! i))) [0..<entity_dim m])
                        (map (entity_embed m (ndata_id g ! dst (edges g ! i))) [0..<entity_dim m])
                        (map (relation_embed m (etype (edges g ! i))) [0..<relation_dim m]))
                   idxs"
proof -
  from assms obtain t_embed h_embed r_embed where
    t: "embedding (n_entities m) (entity_dim m) (entity_embed m)
          (map (\<lambda>i. ndata_id g ! src (edges g ! i)) idxs) = Inr t_embed"
    and h: "embedding (n_entities m) (entity_dim m) (entity_embed m)
          (map (\<lambda>i. ndata_id g ! dst (edges g ! i)) idxs) = Inr h_embed"
    and r: "embedding (n_relations m) (relation_dim m) (relation_embed m)
          (map (\<lambda>i. etype (edges g ! i)) idxs) = Inr r_embed"
    and v: "vals = map (\<lambda>(t, h, r). edge_score W (relation_dim m) t h r)
                       (zip t_embed (zip h_embed r_embed))"
    by (auto simp: att_score_def split: sum.splits)
  have t': "t_embed = map (\<lambda>i. map (entity_embed m (ndata_id g ! src (edges g ! i)))
                                   [0..<entity_dim m]) idxs"
    using embedding_rows [OF t] by (simp add: comp_def)
  have h': "h_embed = map (\<lambda>i. map (entity_embed m (ndata_id g ! dst (edges g ! i)))
                                   [0..<entity_dim m]) idxs"
    using embedding_rows [OF h] by (simp add: comp_def)
  have r': "r_embed = map (\<lambda>i. map (relation_embed m (etype (edges g ! i)))
                                   [0..<relation_dim m]) idxs"
    using embedding_rows [OF r] by (simp add: comp_def)
  show ?thesis
    unfolding v t' h' r' by (rule map_zip3)
qed


lemma write_rows_length: "length (write_rows col idxs vals) = length col"
proof -
  have "\<And>col. length (fold (\<lambda>(i, v) c. c[i := v]) ps col) = length col" for ps :: "(nat \<times> real) list"
    by (induction ps) (auto split: prod.splits)
  then show ?thesis by (simp add: write_rows_def)
qed

lemma write_rows_nth:
  "e < length col \<Longrightarrow>
     write_rows col idxs (map F idxs) ! e = (if e \<in> set idxs then F e else col ! e)"
proof (induction idxs arbitrary: col)
  case Nil
  then show ?case by (simp add: write_rows_def)
next
  case (Cons i idxs)
  have step: "write_rows col (i # idxs) (map F (i # idxs))
                = write_rows (col[i := F i]) idxs (map F idxs)"
    by (simp add: write_rows_def)
  from Cons.prems have "e < length (col[i := F i])" by simp
  from Cons.IH [OF this] Cons.prems show ?case
    unfolding step by (auto simp: nth_list_update)
qed

lemma spec_raw_score_W_r [simp]: "spec_raw_score (m\<lparr>W_r := x\<rparr>) g e = spec_raw_score m g e"
  by (simp add: spec_raw_score_def)

lemma att_score_spec:
  assumes "att_score (m\<lparr>W_r := Some (W_R m i)\<rparr>) g idxs = Inr vals"
    and "\<And>e. e \<in> set idxs \<Longrightarrow> etype (edges g ! e) = i"
  shows "vals = map (spec_raw_score m g) idxs"
proof -
  have "vals = map (\<lambda>j. edge_score (W_R m i) (relation_dim m)
                        (map (entity_embed m (ndata_id g ! src (edges g ! j))) [0..<entity_dim m])
                        (map (entity_embed m (ndata_id g ! dst (edges g ! j))) [0..<entity_dim m])
                        (map (relation_embed m (etype (edges g ! j))) [0..<relation_dim m]))
                   idxs"
    using att_score_vals [OF assms(1), of "W_R m i"] by simp
  also have "\<dots> = map (spec_raw_score m g) idxs"
    by (rule map_cong) (simp_all add: spec_raw_score_def edge_score_def Let_def assms(2))
  finally show ?thesis .
qed

lemma att_loop_None:
  "att_loop m g (i # rest) None
     = att_loop m g (i # rest) (Some (replicate (length (edges g)) 0))"
  by (simp add: Let_def split: sum.splits)

lemma att_loop_Some:
  "att_loop m g rels (Some c0) = (Inr col', m') \<Longrightarrow> length c0 = length (edges g) \<Longrightarrow>
     \<exists>c. col' = Some c \<and> length c = length (edges g)
        \<and> (\<forall>e < length (edges g).
              c ! e = (if etype (edges g ! e) \<in> set rels then spec_raw_score m g e else c0 ! e))"
proof (induction rels arbitrary: m c0)
  case Nil
  then show ?case by auto
next
  case (Cons i rels)
  let ?idxs = "filter (\<lambda>e. etype (edges g ! e) = i) [0..<length (edges g)]"
  let ?m1 = "m\<lparr>W_r := Some (W_R m i)\<rparr>"
  from Cons.prems(1) obtain vals where
    sc: "att_score ?m1 g ?idxs = Inr vals"
    and rest: "att_loop ?m1 g rels (Some (write_rows c0 ?idxs vals)) = (Inr col', m')"
    by (auto simp: Let_def split: sum.splits)
  have vals: "vals = map (spec_raw_score m g) ?idxs"
    using sc by (rule att_score_spec) simp
  let ?c1 = "write_rows c0 ?idxs vals"
  have len1: "length ?c1 = length (edges g)"
    using Cons.prems(2) by (simp add: write_rows_length)
  from Cons.IH [OF rest len1] obtain c where
    c: "col' = Some c" "length c = length (edges g)"
    and cn: "\<forall>e < length (edges g).
               c ! e = (if etype (edges g ! e) \<in> set rels then spec_raw_score ?m1 g e else ?c1 ! e)"
    by blast
  have c1n: "?c1 ! e = (if etype (edges g ! e) = i then spec_raw_score m g e else c0 ! e)"
    if "e < length (edges g)" for e
    using that Cons.prems(2) unfolding vals by (simp add: write_rows_nth)
  have "\<forall>e < length (edges g).
          c ! e = (if etype (edges g ! e) \<in> set (i # rels) then spec_raw_score m g e else c0 ! e)"
    using cn c1n by auto
  with c show ?case by blast
qed


lemma raw_attention_column:
  assumes "raw_attention m g = (Inr score, m')" and "wf_graph g"
  shows "length score = length (edges g)
       \<and> (\<forall>e < length (edges g). etype (edges g ! e) < n_relations m \<longrightarrow>
              score ! e = spec_raw_score m g e)"
proof -
  from assms(1) have loop: "att_loop m g [0..<n_relations m] (edata_att g) = (Inr (Some score), m')"
    by (auto simp: raw_attention_def split: prod.splits sum.splits option.splits)
  have "\<exists>c0. length c0 = length (edges g)
            \<and> att_loop m g [0..<n_relations m] (Some c0) = (Inr (Some score), m')"
  proof (cases "edata_att g")
    case (Some a)
    with assms(2) loop show ?thesis by (auto simp: wf_graph_def)
  next
    case None
    show ?thesis
    proof (cases "n_relations m")
      case 0
      with None loop show ?thesis by simp
    next
      case (Suc k)
      then have "[0..<n_relations m] = 0 # [1..<n_relations m]"
        by (simp add: upt_conv_Cons)
      with None loop
      have "att_loop m g [0..<n_relations m] (Some (replicate (length (edges g)) 0))
              = (Inr (Some score), m')"
        by (simp only: att_loop_None)
      then show ?thesis by (intro exI [of _ "replicate (length (edges g)) 0"]) simp
    qed
  qed
  then obtain c0 where "length c0 = length (edges g)"
    and "att_loop m g [0..<n_relations m] (Some c0) = (Inr (Some score), m')"
    by blast
  from att_loop_Some [OF this(2) this(1)] show ?thesis by auto
qed

lemma att_score_returns:
  assumes "W_r m = Some W"
    and "\<And>i. i \<in> set idxs \<Longrightarrow>
           ndata_id g ! src (edges g ! i) < n_entities m
         \<and> ndata_id g ! dst (edges g ! i) < n_entities m
         \<and> etype (edges g ! i) < n_relations m"
  shows "\<exists>vals. att_score m g idxs = Inr vals"
  using assms by (simp add: att_score_def embedding_def list_all_iff)

lemma att_loop_returns:
  assumes "\<And>e. e < length (edges g) \<Longrightarrow>
             ndata_id g ! src (edges g ! e) < n_entities m
           \<and> ndata_id g ! dst (edges g ! e) < n_entities m"
    and "\<And>i. i \<in> set rels \<Longrightarrow> i < n_relations m"
  shows "\<exists>col' m'. att_loop m g rels col = (Inr col', m')
                 \<and> (rels \<noteq> [] \<or> col \<noteq> None \<longrightarrow> col' \<noteq> None)"
  using assms
proof (induction rels arbitrary: m col)
  case Nil
  then show ?case by simp
next
  case (Cons i rels)
  let ?idxs = "filter (\<lambda>e. etype (edges g ! e) = i) [0..<length (edges g)]"
  let ?m1 = "m\<lparr>W_r := Some (W_R m i)\<rparr>"
  have "\<exists>vals. att_score ?m1 g ?idxs = Inr vals"
    by (rule att_score_returns [where W = "W_R m i"]) (use Cons.prems in auto)
  then obtain vals where v: "att_score ?m1 g ?idxs = Inr vals" by blast
  let ?c1 = "Some (write_rows (case col of None \<Rightarrow> replicate (length (edges g)) 0 | Some c \<Rightarrow> c)
                     ?idxs vals)"
  have "\<exists>col' m'. att_loop ?m1 g rels ?c1 = (Inr col', m')
                 \<and> (rels \<noteq> [] \<or> ?c1 \<noteq> None \<longrightarrow> col' \<noteq> None)"
    by (rule Cons.IH) (use Cons.prems in auto)
  with v show ?case by (auto simp: Let_def)
qed

lemma compute_attention_returns:
  assumes "wf_graph g"
    and "list_all (\<lambda>i. i < n_entities m) (ndata_id g)"
    and "0 < n_relations m \<or> edata_att g \<noteq> None"
  shows "\<exists>att m'. compute_attention m g = (Inr att, m')"
proof -
  have ids: "ndata_id g ! src (edges g ! e) < n_entities m
           \<and> ndata_id g ! dst (edges g ! e) < n_entities m" if "e < length (edges g)" for e
    using that assms(1,2) by (auto simp: wf_graph_def list_all_iff)
  have "\<exists>col' m'. att_loop m g [0..<n_relations m] (edata_att g) = (Inr col', m')
          \<and> ([0..<n_relations m] \<noteq> [] \<or> edata_att g \<noteq> None \<longrightarrow> col' \<noteq> None)"
    by (rule att_loop_returns) (use ids in auto)
  with assms(3) show ?thesis
    by (auto simp: compute_attention_def raw_attention_def)
qed


lemma toy_graph_wf: "wf_graph toy_graph"
  by (simp add: wf_graph_def toy_graph_def)

lemma toy_graph_in_edges: "in_edges toy_graph 2 = [0, 1]"
  by (simp add: in_edges_def toy_graph_def upt_conv_Cons)

lemma toy_attention_returns: "\<exists>att m'. compute_attention toy_model toy_graph = (Inr att, m')"
  by (rule compute_attention_returns [OF toy_graph_wf])
     (simp_all add: toy_model_def toy_graph_def)

text \<open>
  C1. After \<^verbatim>\<open>compute_attention\<close> has returned the attention of a graph, for every
  destination node with at least one incoming edge the weights of its incoming edges
  sum to 1; the weights are reals here, so the sum is exact and within 1e-6 of 1.
  The call returns on every graph whose node ids are entity ids, as
  \<open>compute_attention_returns\<close> shows.
\<close>

theorem attention_sums_to_one:
  assumes "compute_attention m g = (Inr att, m')"
    and "in_edges g v \<noteq> []"
  shows "sum_list (map (\<lambda>e. att ! e) (in_edges g v)) = 1
       \<and> \<bar>sum_list (map (\<lambda>e. att ! e) (in_edges g v)) - 1\<bar> \<le> 1 / 10 ^ 6"
proof -
  from compute_attention_is_softmax [OF assms(1)] obtain score
    where att: "att = edge_softmax_fix g score" by blast
  have "sum_list (map (\<lambda>e. att ! e) (in_edges g v)) = 1"
    unfolding att using assms(2) by (rule edge_softmax_fix_sums_to_one)
  then show ?thesis by simp
qed

theorem attention_sums_to_one_witness:
  "\<exists>att m'. compute_attention toy_model toy_graph = (Inr att, m')
          \<and> sum_list (map (\<lambda>e. att ! e) (in_edges toy_graph 2)) = 1"
proof -
  from toy_attention_returns obtain att m'
    where c: "compute_attention toy_model toy_graph = (Inr att, m')" by blast
  have ne: "in_edges toy_graph 2 \<noteq> []" by (simp add: toy_graph_in_edges)
  from attention_sums_to_one [OF c ne] c show ?thesis by blast
qed

text \<open>
  C2. Before the softmax of Equation (5), every edge whose label \<open>r\<close> is a relation
  of the model carries the score
  \<open>dot(tail W_r, tanh(head W_r + relation_embed r))\<close>, where the tail is the embedding
  of the source node of the edge and the head that of its destination node; and the
  result of \<^verbatim>\<open>compute_attention\<close> is the softmax of that column.
\<close>

theorem raw_attention_score:
  assumes "raw_attention m g = (Inr score, m')"
    and "wf_graph g"
    and "e < length (edges g)"
    and "etype (edges g ! e) < n_relations m"
  shows "score ! e = spec_raw_score m g e
       \<and> compute_attention m g = (Inr (edge_softmax_fix g score), m')"
  using raw_attention_column [OF assms(1,2)] assms
  by (simp add: compute_attention_def)

theorem raw_attention_score_witness:
  "\<exists>score m'. raw_attention toy_model toy_graph = (Inr score, m')
            \<and> score ! 0 = 0 \<and> score ! 1 = tanh 2"
proof -
  from toy_attention_returns obtain att m'
    where "compute_attention toy_model toy_graph = (Inr att, m')" by blast
  from compute_attention_is_softmax [OF this] obtain score
    where r: "raw_attention toy_model toy_graph = (Inr score, m')" by blast
  have l0: "0 < length (edges toy_graph)" and l1: "1 < length (edges toy_graph)"
    by (simp_all add: toy_graph_def)
  have t0: "etype (edges toy_graph ! 0) < n_relations toy_model"
    and t1: "etype (edges toy_graph ! 1) < n_relations toy_model"
    by (simp_all add: toy_graph_def toy_model_def)
  have v0: "spec_raw_score toy_model toy_graph 0 = 0"
    by (simp add: spec_raw_score_def toy_model_def toy_graph_def vec_mat_def dot_def)
  have v1: "spec_raw_score toy_model toy_graph 1 = tanh 2"
    by (simp add: spec_raw_score_def toy_model_def toy_graph_def vec_mat_def dot_def)
  from raw_attention_score [OF r toy_graph_wf l0 t0] raw_attention_score [OF r toy_graph_wf l1 t1]
       v0 v1 r
  show ?thesis by auto
qed

section \<open>Properties of the widths\<close>

lemma sum_dim0_length:
  "list_all (\<lambda>r. length r = d) rs \<Longrightarrow> length (sum_dim0 d rs) = d"
proof -
  have "\<And>acc. length acc = d \<Longrightarrow> list_all (\<lambda>r. length r = d) rs
          \<Longrightarrow> length (foldl (\<lambda>acc r. map2 fadd acc r) acc rs) = d"
    by (induction rs) simp_all
  then show "list_all (\<lambda>r. length r = d) rs \<Longrightarrow> length (sum_dim0 d rs) = d"
    by (simp add: sum_dim0_def)
qed

lemma index_rows_shape:
  assumes "wf_table emb" and "index_rows emb idxs = Inr rs"
  shows "length rs = length idxs \<and> list_all (\<lambda>r. length r = ncols emb) rs"
  using assms
  by (auto simp: index_rows_def wf_table_def list_all_iff split: if_splits)

lemma user_kg_row_length:
  assumes "wf_table emb" and "user_kg_row emb ud u = Inr r"
  shows "length r = ncols emb"
  using assms
  by (auto simp: user_kg_row_def sum_dim0_length split: option.splits sum.splits
           dest!: index_rows_shape)

lemma kg_rows_shape:
  assumes "wf_table emb"
  shows "kg_rows emb ud uids = Inr rs \<Longrightarrow>
           length rs = length uids \<and> list_all (\<lambda>r. length r = ncols emb) rs"
  by (induction uids arbitrary: rs)
     (auto split: sum.splits simp: user_kg_row_length [OF assms])

lemma get_user_kg_embed_shape:
  assumes "wf_table emb" and "get_user_kg_embed emb (IdTensor uids) ud = Inr rs"
  shows "length rs = length uids \<and> list_all (\<lambda>r. length r = ncols emb) rs \<and> uids \<noteq> []"
  using assms kg_rows_shape [OF assms(1), of ud uids]
  by (auto simp: get_user_kg_embed_def split: sum.splits if_splits)

lemma get_user_kg_embed_scalar_shape:
  assumes "wf_table emb" and "get_user_kg_embed emb (NpFloat u) ud = Inr rs"
  shows "length rs = 1 \<and> list_all (\<lambda>r. length r = ncols emb) rs"
  using assms
  by (auto simp: get_user_kg_embed_def user_kg_row_length split: sum.splits)

lemma sim_user_loop_shape:
  assumes "wf_table emb"
  shows "sim_user_loop emb ud uid sims acc = Inr acc' \<Longrightarrow>
         (case fst acc of None \<Rightarrow> True
          | Some t \<Rightarrow> length t = 1 \<and> list_all (\<lambda>r. length r = ncols emb) t) \<Longrightarrow>
         (case fst acc' of None \<Rightarrow> True
          | Some t \<Rightarrow> length t = 1 \<and> list_all (\<lambda>r. length r = ncols emb) t)"
proof (induction sims arbitrary: acc)
  case Nil
  then show ?case by simp
next
  case (Cons s sims)
  obtain se nrm where acc: "acc = (se, nrm)" by (cases acc)
  from Cons.prems(1) acc obtain sim kg where
    kg: "get_user_kg_embed emb (NpFloat s) ud = Inr kg"
    and rest: "sim_user_loop emb ud uid sims
                 (Some (case se of None \<Rightarrow> map (map (fscale sim)) kg
                        | Some t \<Rightarrow> map2 (map2 fadd) t (map (map (fscale sim)) kg)),
                  nrm + sim) = Inr acc'"
    by (auto simp: Let_def split: sum.splits)
  from get_user_kg_embed_scalar_shape [OF assms kg]
  have k: "length kg = 1" "list_all (\<lambda>r. length r = ncols emb) kg" by simp_all
  then obtain r where kgr: "kg = [r]" "length r = ncols emb"
    by (cases kg) auto
  show ?case
  proof (rule Cons.IH [OF rest])
    show "case fst (Some (case se of None \<Rightarrow> map (map (fscale sim)) kg
                         | Some t \<Rightarrow> map2 (map2 fadd) t (map (map (fscale sim)) kg)),
                    nrm + sim) of
            None \<Rightarrow> True
          | Some t \<Rightarrow> length t = 1 \<and> list_all (\<lambda>r. length r = ncols emb) t"
    proof (cases se)
      case None
      with kgr show ?thesis by simp
    next
      case (Some t)
      with Cons.prems(2) acc have "length t = 1" "list_all (\<lambda>r. length r = ncols emb) t"
        by simp_all
      then obtain r' where "t = [r']" "length r' = ncols emb" by (cases t) auto
      with Some kgr show ?thesis by simp
    qed
  qed
qed

lemma user_cf_row_shape:
  assumes "wf_table emb" and "user_cf_row emb ud sd uid = Inr t"
  shows "length t = 1 \<and> list_all (\<lambda>r. length r = ncols emb) t"
proof -
  from assms(2) obtain sims acc where
    loop: "sim_user_loop emb ud uid sims (None, 0) = Inr acc"
    and d: "div_by_norm acc = Inr t"
    by (auto simp: user_cf_row_def split: option.splits sum.splits)
  from sim_user_loop_shape [OF assms(1) loop]
  have "case fst acc of None \<Rightarrow> True
        | Some t \<Rightarrow> length t = 1 \<and> list_all (\<lambda>r. length r = ncols emb) t"
    by simp
  with d show ?thesis
    by (auto simp: div_by_norm_def list_all_iff split: option.splits)
qed

lemma cf_rows_shape:
  assumes "wf_table emb"
  shows "cf_rows emb ud sd uids = Inr rs \<Longrightarrow>
           length rs = length uids \<and> list_all (\<lambda>r. length r = ncols emb) rs"
proof (induction uids arbitrary: rs)
  case Nil
  then show ?case by simp
next
  case (Cons u uids)
  from Cons.prems obtain t rs' where
    t: "user_cf_row emb ud sd u = Inr t" and r: "cf_rows emb ud sd uids = Inr rs'"
    and rs: "rs = t @ rs'"
    by (auto split: sum.splits)
  from user_cf_row_shape [OF assms t] Cons.IH [OF r] rs show ?case by simp
qed

lemma get_user_cf_embed_shape:
  assumes "wf_table emb" and "get_user_cf_embed emb uids ud sd = Inr rs"
  shows "length rs = length uids \<and> list_all (\<lambda>r. length r = ncols emb) rs"
  using assms cf_rows_shape [OF assms(1), of ud sd uids]
  by (auto simp: get_user_cf_embed_def split: sum.splits if_splits)

lemma cat_cols_shape:
  assumes "cat_cols a b = Inr c"
    and "list_all (\<lambda>r. length r = d) a" and "list_all (\<lambda>r. length r = d) b"
  shows "length c = length a \<and> length a = length b \<and> list_all (\<lambda>r. length r = 2 * d) c"
  using assms
  by (auto simp: cat_cols_def list_all_iff set_zip split: if_splits)

lemma linear_apply_shape:
  assumes "linear_apply L X = Inr Y"
  shows "list_all (\<lambda>x. length x = in_features L) X \<and> length Y = length X
       \<and> list_all (\<lambda>y. length y = out_features L) Y"
  using assms
  by (auto simp: linear_apply_def linear_row_def list_all_iff split: if_splits)

lemma encoder_apply_shape:
  assumes "encoder_apply enc X = Inr Y"
  shows "list_all (\<lambda>x. length x = in_features (lin1 enc)) X \<and> length Y = length X
       \<and> list_all (\<lambda>y. length y = out_features (lin2 enc)) Y"
proof -
  from assms obtain h y where
    h: "linear_apply (lin1 enc) X = Inr h"
    and y: "linear_apply (lin2 enc) (map (map relu) h) = Inr y"
    and Y: "Y = map (map relu) y"
    by (auto simp: encoder_apply_def split: sum.splits)
  from linear_apply_shape [OF h] linear_apply_shape [OF y] Y show ?thesis
    by (auto simp: list_all_iff)
qed

lemma fused_width:
  assumes "encoder_apply enc X = Inr Y"
    and "in_features (lin1 enc) = 352" and "out_features (lin2 enc) = 176"
    and "list_all (\<lambda>r. length r = 2 * d) X" and "X \<noteq> []"
  shows "d = 176 \<and> length Y = length X \<and> list_all (\<lambda>y. length y = 176) Y"
proof -
  from encoder_apply_shape [OF assms(1)] assms(2,3)
  have a: "list_all (\<lambda>x. length x = 352) X" and b: "length Y = length X"
    and c: "list_all (\<lambda>y. length y = 176) Y" by simp_all
  from assms(5) obtain x where "x \<in> set X" by (cases X) auto
  with a assms(4) have "2 * d = 352" by (auto simp: list_all_iff)
  with b c show ?thesis by simp
qed

lemma get_user_embed_width:
  assumes "wf_table emb"
    and "get_user_embed m emb user_ids ud sd = Inr ue"
    and "in_features (lin1 (user_encoder m)) = 352"
    and "out_features (lin2 (user_encoder m)) = 176"
  shows "ncols emb = 176 \<and> length ue = length user_ids \<and> list_all (\<lambda>r. length r = 176) ue"
proof -
  from assms(2) obtain kg cf fin where
    kg: "get_user_kg_embed emb (IdTensor user_ids) ud = Inr kg"
    and cf: "get_user_cf_embed emb user_ids ud sd = Inr cf"
    and cat: "cat_cols kg cf = Inr fin"
    and enc: "encoder_apply (user_encoder m) fin = Inr ue"
    by (auto simp: get_user_embed_def split: sum.splits)
  from get_user_kg_embed_shape [OF assms(1) kg]
  have k: "length kg = length user_ids" "list_all (\<lambda>r. length r = ncols emb) kg" "user_ids \<noteq> []"
    by simp_all
  from get_user_cf_embed_shape [OF assms(1) cf]
  have c: "list_all (\<lambda>r. length r = ncols emb) cf" by simp
  from cat_cols_shape [OF cat k(2) c] k
  have f: "length fin = length user_ids" "list_all (\<lambda>r. length r = 2 * ncols emb) fin" "fin \<noteq> []"
    by auto
  from fused_width [OF enc assms(3,4) f(2,3)] f(1) show ?thesis by simp
qed


lemma index_row_length:
  assumes "wf_table emb" and "index_row emb i = Inr r"
  shows "length r = ncols emb"
  using assms by (auto simp: index_row_def wf_table_def list_all_iff split: if_splits)

lemma sim_item_loop_shape:
  assumes "wf_table emb"
  shows "sim_item_loop emb idict iid sims acc = Inr acc' \<Longrightarrow>
         (case fst acc of None \<Rightarrow> True | Some t \<Rightarrow> length t = ncols emb) \<Longrightarrow>
         (case fst acc' of None \<Rightarrow> True | Some t \<Rightarrow> length t = ncols emb)"
proof (induction sims arbitrary: acc)
  case Nil
  then show ?case by simp
next
  case (Cons s sims)
  obtain se nrm where acc: "acc = (se, nrm)" by (cases acc)
  from Cons.prems(1) acc obtain sim r where
    r: "index_row emb s = Inr r"
    and rest: "sim_item_loop emb idict iid sims
                 (Some (case se of None \<Rightarrow> map (fscale sim) r
                        | Some t \<Rightarrow> map2 fadd t (map (fscale sim) r)),
                  nrm + sim) = Inr acc'"
    by (auto simp: Let_def split: sum.splits)
  have lr: "length r = ncols emb" using assms r by (rule index_row_length)
  show ?case
  proof (rule Cons.IH [OF rest])
    show "case fst (Some (case se of None \<Rightarrow> map (fscale sim) r
                         | Some t \<Rightarrow> map2 fadd t (map (fscale sim) r)),
                    nrm + sim) of
            None \<Rightarrow> True | Some t \<Rightarrow> length t = ncols emb"
      using Cons.prems(2) acc lr by (cases se) simp_all
  qed
qed

lemma item_cf_row_length:
  assumes "wf_table emb" and "item_cf_row emb sd idict iid = Inr t"
  shows "length t = ncols emb"
proof -
  from assms(2) obtain sims acc t0 where
    loop: "sim_item_loop emb idict iid sims (None, 0) = Inr acc"
    and a: "fst acc = Some t0" and t: "t = map (\<lambda>x. fdiv x (snd acc)) t0"
    by (auto simp: item_cf_row_def split: option.splits sum.splits)
  from sim_item_loop_shape [OF assms(1) loop] a t show ?thesis by simp
qed

lemma item_cf_rows_shape:
  assumes "wf_table emb"
  shows "item_cf_rows emb sd idict iids = Inr rs \<Longrightarrow>
           length rs = length iids \<and> list_all (\<lambda>r. length r = ncols emb) rs"
  by (induction iids arbitrary: rs)
     (auto split: sum.splits simp: item_cf_row_length [OF assms])

lemma get_item_embed_width:
  assumes "wf_table emb"
    and "get_item_embed m emb item_ids sd idict = Inr ie"
    and "in_features (lin1 (item_encoder m)) = 352"
    and "out_features (lin2 (item_encoder m)) = 176"
  shows "ncols emb = 176 \<and> length ie = length item_ids \<and> list_all (\<lambda>r. length r = 176) ie"
proof -
  from assms(2) obtain kg cf fin where
    kg: "index_rows emb item_ids = Inr kg"
    and cf: "get_item_cf_embed emb item_ids sd idict = Inr cf"
    and cat: "cat_cols kg cf = Inr fin"
    and enc: "encoder_apply (item_encoder m) fin = Inr ie"
    by (auto simp: get_item_embed_def split: sum.splits)
  from index_rows_shape [OF assms(1) kg]
  have k: "length kg = length item_ids" "list_all (\<lambda>r. length r = ncols emb) kg" by simp_all
  from cf obtain rs where rs: "item_cf_rows emb sd idict item_ids = Inr rs" "rs \<noteq> []" "cf = rs"
    by (auto simp: get_item_cf_embed_def split: sum.splits if_splits)
  from item_cf_rows_shape [OF assms(1) rs(1)] rs
  have c: "list_all (\<lambda>r. length r = ncols emb) cf" "length cf = length item_ids" "cf \<noteq> []"
    by simp_all
  from cat_cols_shape [OF cat k(2) c(1)] k c
  have f: "length fin = length item_ids" "list_all (\<lambda>r. length r = 2 * ncols emb) fin" "fin \<noteq> []"
    by auto
  from fused_width [OF enc assms(3,4) f(2,3)] f(1) show ?thesis by simp
qed

lemma KGAT_init_encoders:
  assumes "KGAT_init args n_usr n_ent n_rel upre ipre ini = Inr m"
  shows "in_features (lin1 (user_encoder m)) = 352 \<and> out_features (lin1 (user_encoder m)) = 176
       \<and> in_features (lin2 (user_encoder m)) = 176 \<and> out_features (lin2 (user_encoder m)) = 176
       \<and> in_features (lin1 (item_encoder m)) = 352 \<and> out_features (lin1 (item_encoder m)) = 176
       \<and> in_features (lin2 (item_encoder m)) = 176 \<and> out_features (lin2 (item_encoder m)) = 176"
  using assms
  by (auto simp: KGAT_init_def Let_def mk_encoder_def split: sum.splits)

lemma Aggregator_init_wf:
  assumes "Aggregator_init i out p ty ini = Inr a"
  shows "wf_aggregator a \<and> out_dim a = out"
  using assms
  by (auto simp: Aggregator_init_def wf_aggregator_def mk_linear_def split: if_splits)

lemma build_layers_shape:
  "build_layers dims drops ty ini ks = Inr as \<Longrightarrow>
     list_all wf_aggregator as \<and> map out_dim as = map (\<lambda>k. dims ! (k + 1)) ks"
  by (induction ks arbitrary: as)
     (auto split: if_splits sum.splits dest: Aggregator_init_wf)

lemma linear_real_shape:
  assumes "linear_real L X = Inr Y"
  shows "ncols Y = out_features L \<and> wf_table Y \<and> length (rws Y) = length (rws X)"
  using assms
  by (auto simp: linear_real_def linear_real_row_def wf_table_def list_all_iff split: if_splits)

lemma tab_map_shape: "wf_table X \<Longrightarrow> wf_table (tab_map f X)"
  by (auto simp: tab_map_def wf_table_def list_all_iff)

lemma tab_map_ncols [simp]: "ncols (tab_map f X) = ncols X"
  by (simp add: tab_map_def)

lemma tab_zip_shape:
  "wf_table X \<Longrightarrow> wf_table Y \<Longrightarrow> ncols X = ncols Y \<Longrightarrow> wf_table (tab_zip f X Y)"
  by (auto simp: tab_zip_def wf_table_def list_all_iff set_zip)

lemma tab_zip_ncols [simp]: "ncols (tab_zip f X Y) = ncols X"
  by (simp add: tab_zip_def)

lemma message_dropout_ncols [simp]: "ncols (message_dropout tr p keep X) = ncols X"
  by (simp add: message_dropout_def)

lemma message_dropout_wf: "wf_table X \<Longrightarrow> wf_table (message_dropout tr p keep X)"
  by (auto simp: message_dropout_def wf_table_def list_all_iff)

lemma Aggregator_forward_shape:
  assumes "Aggregator_forward a mode g node tr keep = Inr y" and "wf_aggregator a"
  shows "ncols y = out_dim a \<and> wf_table y"
  using assms
  by (auto simp: Aggregator_forward_def wf_aggregator_def Let_def ndata_N_h_def
                 message_dropout_wf tab_map_shape tab_zip_shape
           split: if_splits option.splits sum.splits
           dest!: linear_real_shape)

lemma cf_layers_shape:
  "cf_layers layers k mode g tr masks ego = Inr outs \<Longrightarrow> list_all wf_aggregator layers \<Longrightarrow>
     map ncols outs = map out_dim layers \<and> list_all wf_table outs"
proof (induction layers arbitrary: k ego outs)
  case Nil
  then show ?case by simp
next
  case (Cons layer layers)
  from Cons.prems(1) obtain ego' outs' where
    f: "Aggregator_forward layer mode g ego tr (masks k) = Inr ego'"
    and r: "cf_layers layers (Suc k) mode g tr masks ego' = Inr outs'"
    and o: "outs = ego'\<lparr>rws := map normalize_row (rws ego')\<rparr> # outs'"
    by (auto split: sum.splits)
  from Aggregator_forward_shape [OF f] Cons.prems(2)
  have e: "ncols ego' = out_dim layer" "wf_table ego'" by simp_all
  then have n: "wf_table (ego'\<lparr>rws := map normalize_row (rws ego')\<rparr>)"
    by (auto simp: wf_table_def list_all_iff normalize_row_def)
  from Cons.IH [OF r] Cons.prems(2) e n o show ?case by simp
qed

lemma tab_cat_shape:
  "wf_table X \<Longrightarrow> wf_table Y \<Longrightarrow> wf_table (tab_cat X Y) \<and> ncols (tab_cat X Y) = ncols X + ncols Y"
  by (auto simp: tab_cat_def wf_table_def list_all_iff set_zip)

lemma foldl_tab_cat_shape:
  "wf_table X \<Longrightarrow> list_all wf_table outs \<Longrightarrow>
     wf_table (foldl tab_cat X outs)
   \<and> ncols (foldl tab_cat X outs) = ncols X + sum_list (map ncols outs)"
proof (induction outs arbitrary: X)
  case Nil
  then show ?case by simp
next
  case (Cons Y outs)
  from Cons.prems have "wf_table (tab_cat X Y)" "ncols (tab_cat X Y) = ncols X + ncols Y"
    using tab_cat_shape [of X Y] by simp_all
  with Cons.IH [of "tab_cat X Y"] Cons.prems show ?case by simp
qed

lemma cf_embedding_shape:
  assumes "cf_embedding m mode g masks = Inr t" and "list_all wf_aggregator (aggregator_layers m)"
  shows "wf_table t \<and> ncols t = entity_dim m + sum_list (map out_dim (aggregator_layers m))"
proof -
  from assms(1) obtain rows outs where
    rows: "embedding (n_entities m) (entity_dim m) (entity_embed m) (ndata_id g) = Inr rows"
    and outs: "cf_layers (aggregator_layers m) 0 mode g (training m) masks
                 \<lparr>ncols = entity_dim m, rws = rows\<rparr> = Inr outs"
    and t: "t = foldl tab_cat \<lparr>ncols = entity_dim m, rws = rows\<rparr> outs"
    by (auto simp: cf_embedding_def Let_def split: sum.splits)
  have ego: "wf_table \<lparr>ncols = entity_dim m, rws = rows\<rparr>"
    using rows by (auto simp: embedding_def wf_table_def list_all_iff split: if_splits)
  from cf_layers_shape [OF outs assms(2)]
  have o: "map ncols outs = map out_dim (aggregator_layers m)" "list_all wf_table outs"
    by simp_all
  from foldl_tab_cat_shape [OF ego o(2)] o(1) t show ?thesis by simp
qed

lemma KGAT_init_layers:
  assumes "KGAT_init args n_usr n_ent n_rel upre ipre ini = Inr m"
  shows "list_all wf_aggregator (aggregator_layers m)
       \<and> map out_dim (aggregator_layers m) = arg_conv_dim_list args
       \<and> entity_dim m = arg_entity_dim args"
proof -
  from assms obtain aggs where
    b: "build_layers (arg_entity_dim args # arg_conv_dim_list args) (arg_mess_dropout args)
          (arg_aggregation_type args) (init_layers ini) [0..<length (arg_conv_dim_list args)]
        = Inr aggs"
    and m: "aggregator_layers m = aggs" "entity_dim m = arg_entity_dim args"
    by (auto simp: KGAT_init_def Let_def split: sum.splits)
  have "map (\<lambda>k. (arg_entity_dim args # arg_conv_dim_list args) ! (k + 1))
            [0..<length (arg_conv_dim_list args)] = arg_conv_dim_list args"
    by (simp add: map_nth)
  with build_layers_shape [OF b] m show ?thesis by simp
qed

lemma tab_map_Fin_wf: "wf_table t \<Longrightarrow> wf_table (tab_map Fin t)"
  by (rule tab_map_shape)

lemma wide_init_returns: "\<exists>m. KGAT_init wide_args 0 1 1 None None zero_init = Inr m"
  by (simp add: KGAT_init_def init_entity_table_def xavier_uniform_def wide_args_def
                zero_init_def Aggregator_init_def Let_def upt_conv_Cons)

lemma wide_embedding_returns:
  "KGAT_init wide_args 0 1 1 None None zero_init = Inr m \<Longrightarrow>
     \<exists>t. cf_embedding m ''predict'' loop_graph (\<lambda>k i j. True) = Inr t
        \<and> length (rws t) = 1"
  by (auto simp: KGAT_init_def init_entity_table_def xavier_uniform_def wide_args_def
                zero_init_def Aggregator_init_def Let_def upt_conv_Cons cf_embedding_def
                embedding_def loop_graph_def Aggregator_forward_def update_all_N_h_def
                ndata_N_h_def mk_linear_def linear_real_def tab_zip_def tab_map_def
                tab_cat_def neighbor_sum_def message_dropout_def in_edges_def
           split: sum.splits if_splits)

lemma self_similarity: "calk_sim 0 0 [0 \<mapsto> [0]] = Inr 1"
  by (simp add: calk_sim_def)

lemma encoder_apply_returns:
  assumes "list_all (\<lambda>x. length x = in_features (lin1 enc)) X"
    and "out_features (lin1 enc) = in_features (lin2 enc)"
  shows "\<exists>Y. encoder_apply enc X = Inr Y"
  using assms
  by (simp add: encoder_apply_def linear_apply_def linear_row_def list_all_iff)

lemma single_row_fusion_returns:
  assumes wf: "wf_table emb" and w: "ncols emb = 176" and n: "length (rws emb) = 1"
    and u: "in_features (lin1 (user_encoder m)) = 352"
           "out_features (lin1 (user_encoder m)) = in_features (lin2 (user_encoder m))"
    and i: "in_features (lin1 (item_encoder m)) = 352"
           "out_features (lin1 (item_encoder m)) = in_features (lin2 (item_encoder m))"
  shows "(\<exists>ue. get_user_embed m emb [0] [0 \<mapsto> [0]] [0 \<mapsto> [0]] = Inr ue)
       \<and> (\<exists>ie. get_item_embed m emb [0] [0 \<mapsto> [0]] [0 \<mapsto> [0]] = Inr ie)"
proof -
  from wf n have r0: "length (rws emb ! 0) = ncols emb"
    by (cases "rws emb") (auto simp: wf_table_def)
  have ir: "index_rows emb [0] = Inr [rws emb ! 0]"
    using n by (simp add: index_rows_def)
  have i1: "index_row emb 0 = Inr (rws emb ! 0)"
    using n by (simp add: index_row_def)
  have sl: "length (sum_dim0 (ncols emb) [rws emb ! 0]) = ncols emb"
    using r0 by (simp add: sum_dim0_length)
  obtain kr where kr: "user_kg_row emb [0 \<mapsto> [0]] 0 = Inr kr" "length kr = 176"
    using ir sl w by (simp add: user_kg_row_def)
  have kg: "get_user_kg_embed emb (IdTensor [0]) [0 \<mapsto> [0]] = Inr [kr]"
    using kr by (simp add: get_user_kg_embed_def)
  have kg1: "get_user_kg_embed emb (NpFloat 0) [0 \<mapsto> [0]] = Inr [kr]"
    using kr by (simp add: get_user_kg_embed_def)
  obtain cr where cf: "get_user_cf_embed emb [0] [0 \<mapsto> [0]] [0 \<mapsto> [0]] = Inr [cr]"
    and cr: "length cr = 176"
    using kg1 kr self_similarity
    by (simp add: get_user_cf_embed_def user_cf_row_def div_by_norm_def)
  have cat: "cat_cols [kr] [cr] = Inr [kr @ cr]" by (simp add: cat_cols_def)
  have "\<exists>ue. encoder_apply (user_encoder m) [kr @ cr] = Inr ue"
    by (rule encoder_apply_returns) (use kr cr u in simp_all)
  then have U: "\<exists>ue. get_user_embed m emb [0] [0 \<mapsto> [0]] [0 \<mapsto> [0]] = Inr ue"
    using kg cf cat by (simp add: get_user_embed_def)
  obtain ic where ic: "get_item_cf_embed emb [0] [0 \<mapsto> [0]] [0 \<mapsto> [0]] = Inr [ic]"
    and icl: "length ic = 176"
    using i1 r0 w self_similarity
    by (simp add: get_item_cf_embed_def item_cf_row_def)
  have icat: "cat_cols [rws emb ! 0] [ic] = Inr [rws emb ! 0 @ ic]" by (simp add: cat_cols_def)
  have "\<exists>ie. encoder_apply (item_encoder m) [rws emb ! 0 @ ic] = Inr ie"
    by (rule encoder_apply_returns) (use r0 w icl i in simp_all)
  then have I: "\<exists>ie. get_item_embed m emb [0] [0 \<mapsto> [0]] [0 \<mapsto> [0]] = Inr ie"
    using ir ic icat by (simp add: get_item_embed_def)
  from U I show ?thesis by blast
qed

text \<open>
  C9. Whatever the configuration, a model that \<^verbatim>\<open>KGAT.__init__\<close> has built holds fusion
  encoders of input width 352 and output width 176. So \<^verbatim>\<open>get_user_embed\<close> and
  \<^verbatim>\<open>get_item_embed\<close> return only on an embedding table of width 176, and then every row
  they return has 176 entries, one row per id. The table \<^verbatim>\<open>cf_embedding\<close> returns has the
  width \<^verbatim>\<open>entity_dim\<close> plus the sum of the layer widths, so \<^verbatim>\<open>cf_score\<close> returns only
  when that sum is 176.
\<close>

theorem fusion_width_is_176:
  assumes "KGAT_init args n_usr n_ent n_rel upre ipre ini = Inr m"
  shows "in_features (lin1 (user_encoder m)) = 352 \<and> out_features (lin2 (user_encoder m)) = 176
       \<and> in_features (lin1 (item_encoder m)) = 352 \<and> out_features (lin2 (item_encoder m)) = 176
       \<and> (wf_table emb \<and> get_user_embed m emb user_ids user_dict sim_user_dict = Inr ue \<longrightarrow>
            ncols emb = 176 \<and> length ue = length user_ids \<and> list_all (\<lambda>r. length r = 176) ue)
       \<and> (wf_table emb \<and> get_item_embed m emb item_ids sim_item_dict item_dict = Inr ie \<longrightarrow>
            ncols emb = 176 \<and> length ie = length item_ids \<and> list_all (\<lambda>r. length r = 176) ie)
       \<and> (cf_embedding m mode g masks = Inr all_embed \<longrightarrow>
            wf_table all_embed
            \<and> ncols all_embed = arg_entity_dim args + sum_list (arg_conv_dim_list args))
       \<and> (cf_score m mode g user_ids item_ids user_dict sim_user_dict sim_item_dict item_dict masks
            = Inr sc \<longrightarrow> arg_entity_dim args + sum_list (arg_conv_dim_list args) = 176)"
proof -
  note enc = KGAT_init_encoders [OF assms]
  note lay = KGAT_init_layers [OF assms]
  have u: "ncols emb = 176 \<and> length ue = length user_ids \<and> list_all (\<lambda>r. length r = 176) ue"
    if "wf_table emb \<and> get_user_embed m emb user_ids user_dict sim_user_dict = Inr ue"
    for emb ue
    using that enc get_user_embed_width by blast
  have i: "ncols emb = 176 \<and> length ie = length item_ids \<and> list_all (\<lambda>r. length r = 176) ie"
    if "wf_table emb \<and> get_item_embed m emb item_ids sim_item_dict item_dict = Inr ie"
    for emb ie
    using that enc get_item_embed_width by blast
  have c: "wf_table t \<and> ncols t = arg_entity_dim args + sum_list (arg_conv_dim_list args)"
    if "cf_embedding m mode g masks = Inr t" for t
    using cf_embedding_shape [OF that] lay by simp
  have s: "arg_entity_dim args + sum_list (arg_conv_dim_list args) = 176"
    if sc: "cf_score m mode g user_ids item_ids user_dict sim_user_dict sim_item_dict item_dict masks
              = Inr sc"
  proof -
    from sc obtain t ue0 where
      t: "cf_embedding m mode g masks = Inr t"
      and ue0: "get_user_embed m (tab_map Fin t) user_ids user_dict sim_user_dict = Inr ue0"
      by (auto simp: cf_score_def Let_def split: sum.splits)
    from c [OF t] have "wf_table (tab_map Fin t)"
      and n: "ncols (tab_map Fin t) = arg_entity_dim args + sum_list (arg_conv_dim_list args)"
      by (simp_all add: tab_map_Fin_wf)
    with u [of "tab_map Fin t" ue0] ue0 show ?thesis by simp
  qed
  from enc u i c s show ?thesis by blast
qed

theorem fusion_width_is_176_witness:
  "\<exists>m t ue ie sc.
      KGAT_init wide_args 0 1 1 None None zero_init = Inr m
    \<and> cf_embedding m ''predict'' loop_graph (\<lambda>k i j. True) = Inr t
    \<and> wf_table (tab_map Fin t) \<and> ncols t = 176
    \<and> get_user_embed m (tab_map Fin t) [0] [0 \<mapsto> [0]] [0 \<mapsto> [0]] = Inr ue
    \<and> list_all (\<lambda>r. length r = 176) ue
    \<and> get_item_embed m (tab_map Fin t) [0] [0 \<mapsto> [0]] [0 \<mapsto> [0]] = Inr ie
    \<and> list_all (\<lambda>r. length r = 176) ie
    \<and> cf_score m ''predict'' loop_graph [0] [0] [0 \<mapsto> [0]] [0 \<mapsto> [0]] [0 \<mapsto> [0]]
         [0 \<mapsto> [0]] (\<lambda>k i j. True) = Inr sc"
proof -
  from wide_init_returns obtain m
    where m: "KGAT_init wide_args 0 1 1 None None zero_init = Inr m" by blast
  from wide_embedding_returns [OF m] obtain t
    where t: "cf_embedding m ''predict'' loop_graph (\<lambda>k i j. True) = Inr t"
      and n: "length (rws t) = 1" by blast
  note enc = KGAT_init_encoders [OF m]
  let ?E = "tab_map Fin t"
  let ?D = "[0 \<mapsto> [0]] :: id_dict"
  note inst = fusion_width_is_176 [OF m, where mode = "''predict''" and g = loop_graph
      and masks = "\<lambda>k i j. True" and all_embed = t and emb = ?E
      and user_ids = "[0]" and item_ids = "[0]"
      and user_dict = ?D and sim_user_dict = ?D and sim_item_dict = ?D and item_dict = ?D]
  from inst t have w: "wf_table t" "ncols t = 176"
    by (simp_all add: wide_args_def)
  then have E: "wf_table ?E" "ncols ?E = 176" "length (rws ?E) = 1"
    using n by (simp_all add: tab_map_Fin_wf) (simp add: tab_map_def)
  from single_row_fusion_returns [OF E, of m] enc obtain ue ie
    where ue: "get_user_embed m ?E [0] ?D ?D = Inr ue"
      and ie: "get_item_embed m ?E [0] ?D ?D = Inr ie"
    by auto
  from inst ue ie E(1) have l: "list_all (\<lambda>r. length r = 176) ue" "list_all (\<lambda>r. length r = 176) ie"
    by blast+
  have "\<exists>sc. cf_score m ''predict'' loop_graph [0] [0] ?D ?D ?D ?D (\<lambda>k i j. True) = Inr sc"
    using t ue ie by (simp add: cf_score_def Let_def)
  with m t w E ue ie l show ?thesis by blast
qed

end
